theory Spec2Isabelle
  imports Main "HOL-Library.Sublist"
begin

section \<open>JavaScript strings and arrays\<close>

text \<open>
  A JavaScript string is a sequence of UTF-16 code units. It is modelled as a
  \<^typ>\<open>string\<close>, one \<^typ>\<open>char\<close> per code unit, which covers the code units
  below 256; every literal of the program but one (the arrow of the move report) is ASCII.
  Line and character numbers are naturals: the program only ever receives them as
  indices into a text, far below the range where JavaScript prints a number with an
  exponent.
\<close>

definition newline :: string where
  "newline = [CHR 0x0A]"

text \<open>
  \<^verbatim>\<open>s.split(sep)\<close> for a one-character separator: the pieces between the
  separators. The result is never the empty array, so the first branch of the
  \<open>case\<close> is never taken.
\<close>

fun split_on :: "char \<Rightarrow> string \<Rightarrow> string list" where
  "split_on sep [] = [[]]"
| "split_on sep (c # cs) =
     (if c = sep then [] # split_on sep cs
      else (case split_on sep cs of
              [] \<Rightarrow> [[c]]
            | piece # pieces \<Rightarrow> (c # piece) # pieces))"

definition split_lines :: "string \<Rightarrow> string list" where
  "split_lines s = split_on (CHR 0x0A) s"

text \<open>
  \<^verbatim>\<open>Array.prototype.join\<close>: the result starts empty, and every element after the
  first is preceded by the separator.
\<close>

fun join_from :: "string \<Rightarrow> string \<Rightarrow> string list \<Rightarrow> string" where
  "join_from sep R [] = R"
| "join_from sep R (x # xs) = join_from sep (R @ sep @ x) xs"

definition js_join :: "string \<Rightarrow> string list \<Rightarrow> string" where
  "js_join sep xs = (case xs of [] \<Rightarrow> [] | x # rest \<Rightarrow> join_from sep x rest)"

text \<open>\<^verbatim>\<open>String(n)\<close> and \<^verbatim>\<open>${n}\<close> for a natural number: its decimal digits.\<close>

definition digit :: "nat \<Rightarrow> char" where
  "digit d = ''0123456789'' ! d"

fun js_String :: "nat \<Rightarrow> string" where
  "js_String n = (if n < 10 then [digit n] else js_String (n div 10) @ [digit (n mod 10)])"

declare js_String.simps [simp del]

text \<open>\<^verbatim>\<open>s.startsWith(p)\<close>, \<^verbatim>\<open>s.indexOf(p)\<close> and \<^verbatim>\<open>s.includes(p)\<close>.\<close>

fun startsWith :: "string \<Rightarrow> string \<Rightarrow> bool" where
  "startsWith s [] = True"
| "startsWith [] (p # ps) = False"
| "startsWith (c # cs) (p # ps) = (c = p \<and> startsWith cs ps)"

fun indexOf :: "string \<Rightarrow> string \<Rightarrow> nat option" where
  "indexOf [] p = (if p = [] then Some 0 else None)"
| "indexOf (c # cs) p =
     (if startsWith (c # cs) p then Some 0 else map_option Suc (indexOf cs p))"

definition includes_str :: "string \<Rightarrow> string \<Rightarrow> bool" where
  "includes_str s p = (indexOf s p \<noteq> None)"

section \<open>Hover: the response shapes and their normalisation\<close>

text \<open>
  \<^verbatim>\<open>MarkedString = string | {language, value}\<close>,
  \<^verbatim>\<open>MarkupContent = {kind, value}\<close>, and the contents of a hover response:
  \<^verbatim>\<open>MarkedString | MarkedString[] | MarkupContent\<close>.
\<close>

datatype MarkedString = Plain string | Typed string string

datatype MarkupKind = plaintext | markdown

datatype HoverContents =
  Single MarkedString
| Fragments "MarkedString list"
| MarkupContent MarkupKind string

text \<open>The callback of \<^verbatim>\<open>contents.map\<close>: the string itself, or the \<^verbatim>\<open>value\<close> field.\<close>

fun fragment_text :: "MarkedString \<Rightarrow> string" where
  "fragment_text (Plain s) = s"
| "fragment_text (Typed language v) = v"

text \<open>
  \<^verbatim>\<open>formatHoverContents\<close>. The branches in the source's order: a string; an array;
  an object with a \<^verbatim>\<open>value\<close> field (a typed fragment or a markup object). The final
  \<^verbatim>\<open>return ""\<close> is reached by no value of the declared type.
\<close>

fun formatHoverContents :: "HoverContents \<Rightarrow> string" where
  "formatHoverContents (Single (Plain s)) = s"
| "formatHoverContents (Fragments cs) = js_join newline (map fragment_text cs)"
| "formatHoverContents (Single (Typed language v)) = v"
| "formatHoverContents (MarkupContent k v) = v"

text \<open>
  The spec's words for the array case: the fragment values, concatenated with a newline
  separator between neighbours.
\<close>

fun newline_separated :: "string list \<Rightarrow> string" where
  "newline_separated [] = []"
| "newline_separated [v] = v"
| "newline_separated (v # w # vs) = v @ newline @ newline_separated (w # vs)"

section \<open>Node's path module\<close>

text \<open>
  The program calls Node's \<^verbatim>\<open>path\<close> module, which is not part of the repository.
  The operations take it as a parameter, so what is proved of them holds for the POSIX
  and the Windows flavour alike.
\<close>

record PathModule =
  path_join :: "string \<Rightarrow> string \<Rightarrow> string"
  path_resolve :: "string \<Rightarrow> string \<Rightarrow> string"
  path_dirname :: "string \<Rightarrow> string"
  path_normalize :: "string \<Rightarrow> string"
  path_basename :: "string \<Rightarrow> string \<Rightarrow> string"
  path_extname :: "string \<Rightarrow> string"
  path_relative :: "string \<Rightarrow> string \<Rightarrow> string"

text \<open>
  The POSIX flavour, for running the operations on concrete paths. It follows
  \<^verbatim>\<open>lib/path.js\<close> of Node on the segments between slashes. \<open>normalizeString\<close>
  drops empty and \<^verbatim>\<open>.\<close> segments and lets \<^verbatim>\<open>..\<close> remove the segment before
  it, keeping a leading \<^verbatim>\<open>..\<close> only when the path is relative.
\<close>

fun normalize_segments :: "bool \<Rightarrow> string list \<Rightarrow> string list \<Rightarrow> string list" where
  "normalize_segments allowAboveRoot res [] = res"
| "normalize_segments allowAboveRoot res (seg # segs) =
     (if seg = [] \<or> seg = ''.'' then normalize_segments allowAboveRoot res segs
      else if seg = ''..'' then
        (if res \<noteq> [] \<and> last res \<noteq> ''..''
         then normalize_segments allowAboveRoot (butlast res) segs
         else if allowAboveRoot then normalize_segments allowAboveRoot (res @ [''..'']) segs
         else normalize_segments allowAboveRoot res segs)
      else normalize_segments allowAboveRoot (res @ [seg]) segs)"

definition normalizeString :: "string \<Rightarrow> bool \<Rightarrow> string" where
  "normalizeString p allowAboveRoot =
     js_join ''/'' (normalize_segments allowAboveRoot [] (split_on (CHR ''/'') p))"

definition isAbsolute :: "string \<Rightarrow> bool" where
  "isAbsolute p = (case p of [] \<Rightarrow> False | c # cs \<Rightarrow> c = CHR ''/'')"

definition posix_normalize :: "string \<Rightarrow> string" where
  "posix_normalize p =
     (if p = [] then ''.''
      else let trailingSeparator = (last p = CHR ''/'');
               n = normalizeString p (\<not> isAbsolute p)
           in if n = [] then (if isAbsolute p then ''/''
                              else if trailingSeparator then ''./'' else ''.'')
              else (if isAbsolute p then ''/'' else []) @ n
                   @ (if trailingSeparator then ''/'' else []))"

definition posix_join :: "string \<Rightarrow> string \<Rightarrow> string" where
  "posix_join a b =
     (if a = [] \<and> b = [] then ''.''
      else posix_normalize (js_join ''/'' (filter (\<lambda>x. x \<noteq> []) [a, b])))"

text \<open>
  \<^verbatim>\<open>resolve\<close> prepends arguments from the right, then the working directory, until
  the path is absolute.
\<close>

definition resolve_step :: "string \<Rightarrow> string \<times> bool \<Rightarrow> string \<times> bool" where
  "resolve_step p acc =
     (if snd acc \<or> p = [] then acc else (p @ ''/'' @ fst acc, isAbsolute p))"

definition posix_resolve :: "string \<Rightarrow> string \<Rightarrow> string \<Rightarrow> string" where
  "posix_resolve cwd a b =
     (let acc = resolve_step cwd (resolve_step a (resolve_step b ([], False)));
          n = normalizeString (fst acc) (\<not> snd acc)
      in if snd acc then ''/'' @ n else if n \<noteq> [] then n else ''.'')"

text \<open>
  The last component of a path: what stands between the last slash that is followed by
  another character and the trailing slashes.
\<close>

definition last_component :: "string \<Rightarrow> string" where
  "last_component p =
     rev (takeWhile (\<lambda>c. c \<noteq> CHR ''/'') (dropWhile (\<lambda>c. c = CHR ''/'') (rev p)))"

definition posix_dirname :: "string \<Rightarrow> string" where
  "posix_dirname p =
     (if p = [] then ''.''
      else let r = dropWhile (\<lambda>c. c \<noteq> CHR ''/'')
                     (dropWhile (\<lambda>c. c = CHR ''/'') (rev (tl p)));
               end_index = length r
           in if r = [] then (if isAbsolute p then ''/'' else ''.'')
              else if isAbsolute p \<and> end_index = 1 then ''//''
              else take end_index p)"

fun last_dot :: "string \<Rightarrow> nat option" where
  "last_dot [] = None"
| "last_dot (c # cs) =
     (case last_dot cs of
        Some i \<Rightarrow> Some (Suc i)
      | None \<Rightarrow> if c = CHR ''.'' then Some 0 else None)"

definition posix_extname :: "string \<Rightarrow> string" where
  "posix_extname p =
     (let base = last_component p in
      case last_dot base of
        None \<Rightarrow> []
      | Some d \<Rightarrow> if d = 0 \<or> base = ''..'' then [] else drop d base)"

definition endsWith :: "string \<Rightarrow> string \<Rightarrow> bool" where
  "endsWith s e = startsWith (rev s) (rev e)"

definition posix_basename :: "string \<Rightarrow> string \<Rightarrow> string" where
  "posix_basename p ext =
     (let base = last_component p in
      if ext \<noteq> [] \<and> length ext \<le> length p then
        (if ext = p then []
         else if endsWith base ext then
           (if base = ext then base else take (length base - length ext) base)
         else if endsWith ext base
           then base @ rev (takeWhile (\<lambda>c. c = CHR ''/'') (rev p))
         else base)
      else base)"

text \<open>
  \<^verbatim>\<open>relative\<close> resolves both paths and climbs from the first to their common
  directory, then descends to the second.
\<close>

fun drop_common :: "string list \<Rightarrow> string list \<Rightarrow> string list \<times> string list" where
  "drop_common (x # xs) (y # ys) = (if x = y then drop_common xs ys else (x # xs, y # ys))"
| "drop_common xs ys = (xs, ys)"

definition path_segments :: "string \<Rightarrow> string list" where
  "path_segments p = filter (\<lambda>x. x \<noteq> []) (split_on (CHR ''/'') p)"

definition posix_relative :: "string \<Rightarrow> string \<Rightarrow> string \<Rightarrow> string" where
  "posix_relative cwd from_path to_path =
     (if from_path = to_path then []
      else let f = posix_resolve cwd from_path []; t = posix_resolve cwd to_path [] in
        if f = t then []
        else let rest = drop_common (path_segments f) (path_segments t) in
          js_join ''/'' (map (\<lambda>x. ''..'') (fst rest) @ snd rest))"

definition posix :: "string \<Rightarrow> PathModule" where
  "posix cwd =
     \<lparr>path_join = posix_join,
      path_resolve = posix_resolve cwd,
      path_dirname = posix_dirname,
      path_normalize = posix_normalize,
      path_basename = posix_basename,
      path_extname = posix_extname,
      path_relative = posix_relative cwd\<rparr>"

section \<open>Hover: the request, the server and the operation\<close>

text \<open>The request: \<^verbatim>\<open>{root, filePath, line?: number | string, target}\<close>.\<close>

datatype LineSpec = LineNumber int | LineText string

record GetHoverRequest =
  root :: string
  filePath :: string
  reqLine :: "LineSpec option"
  target :: string

record Position =
  line :: nat
  character :: nat

record Range =
  range_start :: Position
  range_end :: Position

text \<open>\<^verbatim>\<open>HoverResult\<close>, what the server answers, and \<^verbatim>\<open>GetHoverSuccess\<close>.\<close>

record HoverResult =
  contents :: HoverContents
  lsp_range :: "Range option"

record Hover =
  hover_contents :: string
  hover_range :: "Range option"

record GetHoverSuccess =
  message :: string
  hover :: "Hover option"

text \<open>
  The language server is outside the program: a client is whatever answers the two calls.
  \<^verbatim>\<open>openDocument\<close> returns nothing or throws (\<open>Some\<close> the error's message);
  \<^verbatim>\<open>getHover\<close> resolves to a hover result or to \<^verbatim>\<open>null\<close> (\<open>Inr None\<close>), or
  rejects (\<open>Inl\<close> the message).
\<close>

record LSPClient =
  openDocument :: "string \<Rightarrow> string \<Rightarrow> string option"
  client_getHover :: "string \<Rightarrow> Position \<Rightarrow> string + HoverResult option"

text \<open>
  What the operation imports. \<^verbatim>\<open>getActiveClient\<close> returns the client or throws.
  \<^verbatim>\<open>readFileSync\<close> returns the text of a file or throws; its first argument is the
  time of the call in milliseconds since the invocation began, since the disk may change
  while the invocation waits. The three text utilities are functions of the repository
  that return a position (\<open>Found\<close>) or an object with an \<^verbatim>\<open>error\<close> field
  (\<open>NotFound\<close>); like every call inside the \<^verbatim>\<open>try\<close> block they may also throw
  (\<open>Raised\<close>). \<^verbatim>\<open>findSymbolInLine\<close> receives \<^verbatim>\<open>lines[targetLine]\<close>, which is
  \<^verbatim>\<open>undefined\<close> (\<open>None\<close>) out of range.
\<close>

datatype 'a Resolved = Found 'a | NotFound string | Raised string

record HoverDeps =
  getActiveClient :: "string + LSPClient"
  readFileSync :: "nat \<Rightarrow> string \<Rightarrow> string + string"
  parseLineNumber :: "string list \<Rightarrow> LineSpec \<Rightarrow> nat Resolved"
  findSymbolInLine :: "string option \<Rightarrow> string \<Rightarrow> nat Resolved"
  findTargetInFile :: "string list \<Rightarrow> string \<Rightarrow> (nat \<times> nat) Resolved"

text \<open>What an invocation does to the outside, in order.\<close>

datatype Event =
  OpenDocument string string
| SettleDelay nat
| GetHover string Position

definition js_nth :: "'a list \<Rightarrow> nat \<Rightarrow> 'a option" where
  "js_nth xs i = (if i < length xs then Some (xs ! i) else None)"

definition dquote :: string where
  "dquote = [CHR 0x22]"

text \<open>The locational part shared by both messages: \<^verbatim>\<open>"target" at file:line:col\<close>.\<close>

definition location_text :: "GetHoverRequest \<Rightarrow> nat \<Rightarrow> nat \<Rightarrow> string" where
  "location_text request targetLine symbolPosition =
     dquote @ target request @ dquote @ '' at '' @ filePath request @ '':''
     @ js_String (targetLine + 1) @ '':'' @ js_String (symbolPosition + 1)"

text \<open>
  \<^verbatim>\<open>formatHoverResult\<close>. It returns \<^verbatim>\<open>ok(...)\<close> (\<open>Inr\<close>) on every path of its
  own; \<open>Inl\<close> is the exception of the second \<^verbatim>\<open>readFileSync\<close>, which the caller
  catches. \<open>read\<close> is \<^verbatim>\<open>readFileSync\<close> at the time of the call.
\<close>

definition formatHoverResult ::
  "PathModule \<Rightarrow> (string \<Rightarrow> string + string) \<Rightarrow>
   HoverResult option \<Rightarrow> GetHoverRequest \<Rightarrow> nat \<Rightarrow> nat \<Rightarrow> string + GetHoverSuccess" where
  "formatHoverResult path read result request targetLine symbolPosition =
     (case result of
        None \<Rightarrow>
          Inr \<lparr>message = ''No hover information available for ''
                  @ location_text request targetLine symbolPosition,
               hover = None\<rparr>
      | Some res \<Rightarrow>
          let formattedContents = formatHoverContents (contents res) in
          (case lsp_range res of
             Some r \<Rightarrow>
               Inr \<lparr>message = ''Hover information for ''
                       @ location_text request targetLine symbolPosition,
                    hover = Some \<lparr>hover_contents = formattedContents,
                      hover_range = Some
                        \<lparr>range_start = \<lparr>line = line (range_start r) + 1,
                                         character = character (range_start r) + 1\<rparr>,
                         range_end = \<lparr>line = line (range_end r) + 1,
                                       character = character (range_end r) + 1\<rparr>\<rparr>\<rparr>\<rparr>
           | None \<Rightarrow>
               (case read (path_resolve path (root request) (filePath request)) of
                  Inl e \<Rightarrow> Inl e
                | Inr fileContent \<Rightarrow>
                    let lines = split_lines fileContent in
                    Inr \<lparr>message = ''Hover information for ''
                            @ location_text request targetLine symbolPosition,
                         hover = Some \<lparr>hover_contents = formattedContents,
                           hover_range = Some
                             \<lparr>range_start = \<lparr>line = 1, character = 1\<rparr>,
                              range_end = \<lparr>line = length lines,
                                character =
                                  (case js_nth lines (length lines - 1) of
                                     None \<Rightarrow> 0
                                   | Some l \<Rightarrow> length l)\<rparr>\<rparr>\<rparr>\<rparr>)))"

text \<open>
  The tail that \<^verbatim>\<open>getHover\<close> and \<^verbatim>\<open>getHoverWithoutLine\<close> share word for word:
  open the document, wait 1000 ms, ask for the hover, format the answer. Every exception
  is caught by the enclosing \<^verbatim>\<open>try\<close> and returned as \<^verbatim>\<open>err(message)\<close>.
\<close>

definition open_and_hover ::
  "PathModule \<Rightarrow> HoverDeps \<Rightarrow> LSPClient \<Rightarrow> GetHoverRequest \<Rightarrow> string \<Rightarrow> string \<Rightarrow> nat \<Rightarrow> nat \<Rightarrow>
   (string + GetHoverSuccess) \<times> Event list" where
  "open_and_hover path deps client request fileUri fileContent targetLine symbolPosition =
     (case openDocument client fileUri fileContent of
        Some e \<Rightarrow> (Inl e, [OpenDocument fileUri fileContent])
      | None \<Rightarrow>
          let pos = \<lparr>line = targetLine, character = symbolPosition\<rparr>;
              events = [OpenDocument fileUri fileContent, SettleDelay 1000, GetHover fileUri pos]
          in (case client_getHover client fileUri pos of
                Inl e \<Rightarrow> (Inl e, events)
              | Inr result \<Rightarrow>
                  (formatHoverResult path (readFileSync deps 1000)
                     result request targetLine symbolPosition, events)))"

text \<open>\<^verbatim>\<open>getHoverWithoutLine\<close>: the target is searched in the whole file.\<close>

definition getHoverWithoutLine ::
  "PathModule \<Rightarrow> HoverDeps \<Rightarrow> GetHoverRequest \<Rightarrow> (string + GetHoverSuccess) \<times> Event list" where
  "getHoverWithoutLine path deps request =
     (case getActiveClient deps of
        Inl e \<Rightarrow> (Inl e, [])
      | Inr client \<Rightarrow>
          let absolutePath = path_resolve path (root request) (filePath request) in
          (case readFileSync deps 0 absolutePath of
             Inl e \<Rightarrow> (Inl e, [])
           | Inr fileContent \<Rightarrow>
               let fileUri = ''file://'' @ absolutePath;
                   lines = split_lines fileContent
               in (case findTargetInFile deps lines (target request) of
                     Raised e \<Rightarrow> (Inl e, [])
                   | NotFound e \<Rightarrow> (Inl (e @ '' in '' @ filePath request), [])
                   | Found (targetLine, symbolPosition) \<Rightarrow>
                       open_and_hover path deps client request fileUri fileContent
                         targetLine symbolPosition)))"

text \<open>\<^verbatim>\<open>getHover\<close>.\<close>

definition getHover ::
  "PathModule \<Rightarrow> HoverDeps \<Rightarrow> GetHoverRequest \<Rightarrow> (string + GetHoverSuccess) \<times> Event list" where
  "getHover path deps request =
     (case reqLine request of
        None \<Rightarrow> getHoverWithoutLine path deps request
      | Some l \<Rightarrow>
          (case getActiveClient deps of
             Inl e \<Rightarrow> (Inl e, [])
           | Inr client \<Rightarrow>
               let absolutePath = path_resolve path (root request) (filePath request) in
               (case readFileSync deps 0 absolutePath of
                  Inl e \<Rightarrow> (Inl e, [])
                | Inr fileContent \<Rightarrow>
                    let fileUri = ''file://'' @ absolutePath;
                        lines = split_lines fileContent
                    in (case parseLineNumber deps lines l of
                          Raised e \<Rightarrow> (Inl e, [])
                        | NotFound e \<Rightarrow> (Inl (e @ '' in '' @ filePath request), [])
                        | Found targetLine \<Rightarrow>
                            (case findSymbolInLine deps (js_nth lines targetLine)
                                    (target request) of
                               Raised e \<Rightarrow> (Inl e, [])
                             | NotFound e \<Rightarrow>
                                 (Inl (e @ '' on line '' @ js_String (targetLine + 1)), [])
                             | Found symbolPosition \<Rightarrow>
                                 open_and_hover path deps client request fileUri fileContent
                                   targetLine symbolPosition)))))"

text \<open>
  What it means, in terms of the answers of the text utilities alone, that the request
  resolves to line index \<open>l\<close> and character index \<open>c\<close> of the text read: with a
  line, \<^verbatim>\<open>parseLineNumber\<close> finds \<open>l\<close> and \<^verbatim>\<open>findSymbolInLine\<close> finds \<open>c\<close> on
  that line; without one, \<^verbatim>\<open>findTargetInFile\<close> finds both.
\<close>

definition resolved_at :: "HoverDeps \<Rightarrow> GetHoverRequest \<Rightarrow> string \<Rightarrow> nat \<Rightarrow> nat \<Rightarrow> bool" where
  "resolved_at deps request fileText l c =
     (case reqLine request of
        Some ls \<Rightarrow>
          parseLineNumber deps (split_lines fileText) ls = Found l
          \<and> findSymbolInLine deps (js_nth (split_lines fileText) l) (target request) = Found c
      | None \<Rightarrow>
          findTargetInFile deps (split_lines fileText) (target request) = Found (l, c))"

section \<open>Position resolver\<close>

text \<open>
  Modelled from the spec: \<^verbatim>\<open>findSymbolInLine\<close>, \<^verbatim>\<open>parseLineNumber\<close> and
  \<^verbatim>\<open>findTargetInFile\<close> of \<^verbatim>\<open>text_utils\<close> are imported by the hover tool but
  their files are not among the sources. The definitions below follow section 4.1 of the
  specification; the error values carry the names the specification gives them.

  A word character is a letter, a digit or the underscore. The target occurs at index
  \<open>i\<close> of a line when the line continues with it there; the occurrence is a whole token
  when no word character stands directly before or directly after it.
\<close>

definition is_word_char :: "char \<Rightarrow> bool" where
  "is_word_char c =
     (c \<in> set (''abcdefghijklmnopqrstuvwxyz'' @ ''ABCDEFGHIJKLMNOPQRSTUVWXYZ''
               @ ''0123456789_''))"

definition occurs_at :: "string \<Rightarrow> string \<Rightarrow> nat \<Rightarrow> bool" where
  "occurs_at lineText t i = (take (length t) (drop i lineText) = t)"

definition word_char_at :: "string \<Rightarrow> nat \<Rightarrow> bool" where
  "word_char_at lineText i = (i < length lineText \<and> is_word_char (lineText ! i))"

definition whole_token_at :: "string \<Rightarrow> string \<Rightarrow> nat \<Rightarrow> bool" where
  "whole_token_at lineText t i =
     (occurs_at lineText t i
      \<and> (if i = 0 then True else \<not> word_char_at lineText (i - 1))
      \<and> \<not> word_char_at lineText (i + length t))"

text \<open>
  Modelled from the spec: ``search it for target as a symbol: prefer a whole-token match
  (word-boundary aware) over a raw substring match [...]; fails with SymbolNotFoundOnLine
  if target does not occur at all''.
\<close>

definition findSymbolInLine_spec :: "string \<Rightarrow> string \<Rightarrow> string + nat" where
  "findSymbolInLine_spec lineText t =
     (case find (whole_token_at lineText t) [0..<Suc (length lineText)] of
        Some i \<Rightarrow> Inr i
      | None \<Rightarrow>
          (case indexOf lineText t of
             Some i \<Rightarrow> Inr i
           | None \<Rightarrow> Inl ''SymbolNotFoundOnLine''))"

fun find_line :: "(string \<Rightarrow> bool) \<Rightarrow> string list \<Rightarrow> nat option" where
  "find_line P [] = None"
| "find_line P (l # ls) = (if P l then Some 0 else map_option Suc (find_line P ls))"

text \<open>
  Modelled from the spec: a number must lie in \<open>[1, lineCount]\<close> and becomes the
  zero-based index; a string selects the first line that contains it.
\<close>

definition parseLineNumber_spec :: "string list \<Rightarrow> LineSpec \<Rightarrow> string + nat" where
  "parseLineNumber_spec lines l =
     (case l of
        LineNumber n \<Rightarrow>
          if 1 \<le> n \<and> n \<le> int (length lines) then Inr (nat (n - 1))
          else Inl ''LineOutOfRange''
      | LineText t \<Rightarrow>
          (case find_line (\<lambda>x. includes_str x t) lines of
             Some i \<Rightarrow> Inr i
           | None \<Rightarrow> Inl ''LineNotFound''))"

text \<open>
  Modelled from the spec: without a line, the first line of the file that contains the
  target is chosen, and the target's first occurrence in it.
\<close>

definition findTargetInFile_spec :: "string list \<Rightarrow> string \<Rightarrow> string + (nat \<times> nat)" where
  "findTargetInFile_spec lines t =
     (case find_line (\<lambda>x. includes_str x t) lines of
        None \<Rightarrow> Inl ''TargetNotFoundInFile''
      | Some i \<Rightarrow>
          (case indexOf (lines ! i) t of
             None \<Rightarrow> Inl ''TargetNotFoundInFile''
           | Some c \<Rightarrow> Inr (i, c)))"

section \<open>Move: the operation\<close>

text \<open>
  \<^verbatim>\<open>MoveFileResult\<close>, and the argument of the project model's move primitive.
\<close>

record MoveFileResult =
  move_message :: string
  changedFiles :: "string list"

record MoveArgs =
  oldFilename :: string
  newFilename :: string
  overwrite :: bool

text \<open>
  A call either returns or throws (for a promise: resolves or rejects). A returned
  \<^verbatim>\<open>Result\<close> of neverthrow is a sum, \<open>Inl\<close> the error.
\<close>

datatype 'a Completion = Returned 'a | Thrown string

text \<open>
  The project model is outside the program. \<^verbatim>\<open>findProjectForFile\<close> returns a project
  or throws; \<^verbatim>\<open>getOrCreateSourceFileWithRefresh\<close> returns (its value is not used) or
  throws (\<open>Some\<close>); \<^verbatim>\<open>moveFile\<close> returns a \<^verbatim>\<open>Result\<close> or throws;
  \<^verbatim>\<open>project.save()\<close> resolves or rejects (\<open>Some\<close>).
\<close>

record 'p MoveDeps =
  findProjectForFile :: "string \<Rightarrow> string + 'p"
  getOrCreateSourceFileWithRefresh :: "string \<Rightarrow> string option"
  moveFile :: "'p \<Rightarrow> MoveArgs \<Rightarrow> (string + MoveFileResult) Completion"
  save :: "'p \<Rightarrow> string option"

datatype 'p MoveEvent =
  FindProject string
| LoadSourceFile string
| MoveFile 'p MoveArgs
| Save 'p

text \<open>\<^verbatim>\<open>handleMoveFile\<close>, with the calls it makes to the project model, in order.\<close>

definition handleMoveFile ::
  "PathModule \<Rightarrow> 'p MoveDeps \<Rightarrow> string \<Rightarrow> string \<Rightarrow> string \<Rightarrow> bool \<Rightarrow>
   (string + MoveFileResult) Completion \<times> 'p MoveEvent list" where
  "handleMoveFile path deps root_dir oldPath newPath overwrite_flag =
     (let absoluteOldPath = path_join path root_dir oldPath;
          absoluteNewPath = path_join path root_dir newPath
      in case findProjectForFile deps absoluteOldPath of
           Inl e \<Rightarrow> (Thrown e, [FindProject absoluteOldPath])
         | Inr project \<Rightarrow>
             (case getOrCreateSourceFileWithRefresh deps absoluteOldPath of
                Some e \<Rightarrow>
                  (Returned (Inl (''File not found: '' @ absoluteOldPath)),
                   [FindProject absoluteOldPath, LoadSourceFile absoluteOldPath])
              | None \<Rightarrow>
                  let args = \<lparr>oldFilename = absoluteOldPath, newFilename = absoluteNewPath,
                              overwrite = overwrite_flag\<rparr>;
                      called = [FindProject absoluteOldPath, LoadSourceFile absoluteOldPath,
                                MoveFile project args]
                  in (case moveFile deps project args of
                        Thrown e \<Rightarrow> (Thrown e, called)
                      | Returned (Inl e) \<Rightarrow> (Returned (Inl e), called)
                      | Returned (Inr v) \<Rightarrow>
                          (case save deps project of
                             Some e \<Rightarrow> (Thrown e, called @ [Save project])
                           | None \<Rightarrow> (Returned (Inr v), called @ [Save project])))))"

section \<open>Move: the report\<close>

text \<open>
  The pattern \<^verbatim>\<open>/(?:import|from|require)\s*\(?['"`]([^'"`]+)['"`]\)?/g\<close>.
  \<^verbatim>\<open>\s\<close> on code units below 256: tab, line feed, vertical tab, form feed,
  carriage return, space and the no-break space.
\<close>

definition is_quote :: "char \<Rightarrow> bool" where
  "is_quote c = (c = CHR 0x27 \<or> c = CHR 0x22 \<or> c = CHR 0x60)"

definition is_space :: "char \<Rightarrow> bool" where
  "is_space c =
     (c = CHR 0x09 \<or> c = CHR 0x0A \<or> c = CHR 0x0B \<or> c = CHR 0x0C \<or> c = CHR 0x0D
      \<or> c = CHR 0x20 \<or> c = CHR 0xA0)"

definition strip_prefix :: "string \<Rightarrow> string \<Rightarrow> string option" where
  "strip_prefix p s = (if startsWith s p then Some (drop (length p) s) else None)"

definition match_keyword :: "string \<Rightarrow> string option" where
  "match_keyword s =
     (case strip_prefix ''import'' s of
        Some r \<Rightarrow> Some r
      | None \<Rightarrow>
          (case strip_prefix ''from'' s of
             Some r \<Rightarrow> Some r
           | None \<Rightarrow> strip_prefix ''require'' s))"

text \<open>
  A match of the pattern at the start of \<open>s\<close>: the captured import path and what follows
  the match. No backtracking can find a match the greedy reading misses: the three
  keywords start with different letters; after the longest run of white space comes a
  character that is not white space; an opening parenthesis that is given up is not a
  quote; and a shorter run of characters other than quotes is followed by a character
  that is not a quote.
\<close>

definition match_here :: "string \<Rightarrow> (string \<times> string) option" where
  "match_here s =
     (case match_keyword s of
        None \<Rightarrow> None
      | Some r1 \<Rightarrow>
          let r2 = dropWhile is_space r1;
              r3 = (if startsWith r2 ''('' then tl r2 else r2)
          in (case r3 of
                [] \<Rightarrow> None
              | q # r4 \<Rightarrow>
                  if \<not> is_quote q then None
                  else let importPath = takeWhile (\<lambda>c. \<not> is_quote c) r4;
                           r5 = dropWhile (\<lambda>c. \<not> is_quote c) r4
                       in if importPath = [] then None
                          else (case r5 of
                                  [] \<Rightarrow> None
                                | q' # r6 \<Rightarrow>
                                    Some (importPath,
                                          if startsWith r6 '')'' then tl r6 else r6))))"

lemma match_here_shorter: "match_here s = Some (p, rest) \<Longrightarrow> length rest < length s"
proof -
  assume m: "match_here s = Some (p, rest)"
  have drop_le: "length (dropWhile P xs) \<le> length xs" for P and xs :: string
    by (rule length_dropWhile_le)
  from m obtain r1 where r1: "match_keyword s = Some r1"
    by (auto simp: match_here_def split: option.splits)
  have "s \<noteq> []" using r1
    by (auto simp: match_keyword_def strip_prefix_def split: option.splits if_splits)
  have "length r1 < length s" using r1 \<open>s \<noteq> []\<close>
    by (auto simp: match_keyword_def strip_prefix_def split: option.splits if_splits)
  define r2 where "r2 = dropWhile is_space r1"
  define r3 where "r3 = (if startsWith r2 ''('' then tl r2 else r2)"
  have "length r2 \<le> length r1" unfolding r2_def by (rule drop_le)
  have "length r3 \<le> length r2" unfolding r3_def by simp
  from m r1 obtain q r4 where r3: "r3 = q # r4"
    by (auto simp: match_here_def r2_def r3_def Let_def split: list.splits if_splits)
  define r5 where "r5 = dropWhile (\<lambda>c. \<not> is_quote c) r4"
  have "length r5 \<le> length r4" unfolding r5_def by (rule drop_le)
  from m r1 r3 obtain q' r6 where r5: "r5 = q' # r6"
    and rest: "rest = (if startsWith r6 '')'' then tl r6 else r6)"
    by (auto simp: match_here_def r2_def r3_def r5_def Let_def split: list.splits if_splits)
  have "length rest \<le> length r6" unfolding rest by simp
  with \<open>length r5 \<le> length r4\<close> r5 r3 \<open>length r3 \<le> length r2\<close> \<open>length r2 \<le> length r1\<close>
    \<open>length r1 < length s\<close>
  show ?thesis by simp
qed

text \<open>
  The loop \<^verbatim>\<open>while ((match = importRegex.exec(line)) !== null)\<close>: the leftmost match
  from \<^verbatim>\<open>lastIndex\<close> on, then on from its end; a failed search resets
  \<^verbatim>\<open>lastIndex\<close> to zero, so every line is searched from its start. The result is the
  list of the captured paths, \<^verbatim>\<open>match[1]\<close>.
\<close>

function import_paths :: "string \<Rightarrow> string list" where
  "import_paths [] = []"
| "import_paths (c # cs) =
     (case match_here (c # cs) of
        Some (p, rest) \<Rightarrow> p # import_paths rest
      | None \<Rightarrow> import_paths cs)"
  by pat_completeness auto
termination
  by (relation "measure length") (auto dest: match_here_shorter)




text \<open>
  \<^verbatim>\<open>s.replace(pattern, replacement)\<close> with two strings: the first occurrence of the
  pattern is replaced, and in the replacement \<^verbatim>\<open>$$\<close> stands for a dollar sign,
  \<^verbatim>\<open>$&\<close> for the matched text, and dollar-backquote and dollar-quote for the text
  before and after the match; any other dollar sign stands for itself.
\<close>

fun expand_replacement :: "string \<Rightarrow> string \<Rightarrow> string \<Rightarrow> string \<Rightarrow> string" where
  "expand_replacement (c # d # r) matched preceding following =
     (if c = CHR 0x24 \<and> d = CHR 0x24 then CHR 0x24 # expand_replacement r matched preceding following
      else if c = CHR 0x24 \<and> d = CHR 0x26 then matched @ expand_replacement r matched preceding following
      else if c = CHR 0x24 \<and> d = CHR 0x60 then preceding @ expand_replacement r matched preceding following
      else if c = CHR 0x24 \<and> d = CHR 0x27 then following @ expand_replacement r matched preceding following
      else c # expand_replacement (d # r) matched preceding following)"
| "expand_replacement r matched preceding following = r"

definition js_replace :: "string \<Rightarrow> string \<Rightarrow> string \<Rightarrow> string" where
  "js_replace s pat replacement =
     (case indexOf s pat of
        None \<Rightarrow> s
      | Some i \<Rightarrow>
          let preceding = take i s; following = drop (i + length pat) s
          in preceding @ expand_replacement replacement pat preceding following @ following)"

text \<open>\<^verbatim>\<open>s.replace(/\\/g, "/")\<close>: every backslash becomes a slash.\<close>

definition backslashes_to_slashes :: "string \<Rightarrow> string" where
  "backslashes_to_slashes s = map (\<lambda>c. if c = CHR 0x5C then CHR ''/'' else c) s"

definition placeholder :: string where
  "placeholder = ''    Import statements updated''"

text \<open>
  The body of the \<^verbatim>\<open>while\<close> loop for one match: what it pushes onto
  \<^verbatim>\<open>matches\<close>.
\<close>

definition match_change ::
  "PathModule \<Rightarrow> string \<Rightarrow> string \<Rightarrow> string \<Rightarrow> nat \<Rightarrow> string \<Rightarrow> string \<Rightarrow> string list" where
  "match_change path file oldPath newPath lineNum ln importPath =
     (let fileDir = path_dirname path file;
          resolvedNewPath = path_resolve path fileDir importPath;
          normalizedNewPath = path_normalize path newPath
      in if resolvedNewPath = normalizedNewPath
            \<or> includes_str importPath
                 (path_basename path newPath (path_extname path newPath))
         then
           let relativeOldPath = backslashes_to_slashes (path_relative path fileDir oldPath);
               oldLine = js_replace ln importPath
                           (if startsWith relativeOldPath ''.'' then relativeOldPath
                            else ''./'' @ relativeOldPath)
           in if oldLine \<noteq> ln
              then [''    @@ -'' @ js_String lineNum @ '',1 +'' @ js_String lineNum @ '',1 @@'',
                    ''    - '' @ oldLine,
                    ''    + '' @ ln]
              else []
         else [])"

text \<open>
  The two parts of that body by name: the test that a captured path plausibly refers to
  the moved file, and the reconstruction of the old import line.
\<close>

definition refers_to_moved :: "PathModule \<Rightarrow> string \<Rightarrow> string \<Rightarrow> string \<Rightarrow> bool" where
  "refers_to_moved path file newPath importPath =
     (path_resolve path (path_dirname path file) importPath = path_normalize path newPath
      \<or> includes_str importPath (path_basename path newPath (path_extname path newPath)))"

definition old_relative_path :: "PathModule \<Rightarrow> string \<Rightarrow> string \<Rightarrow> string" where
  "old_relative_path path file oldPath =
     backslashes_to_slashes (path_relative path (path_dirname path file) oldPath)"

definition reconstructed_old_line ::
  "PathModule \<Rightarrow> string \<Rightarrow> string \<Rightarrow> string \<Rightarrow> string \<Rightarrow> string" where
  "reconstructed_old_line path file oldPath ln importPath =
     js_replace ln importPath
       (if startsWith (old_relative_path path file oldPath) ''.''
        then old_relative_path path file oldPath
        else ''./'' @ old_relative_path path file oldPath)"



definition diff_fragment :: "nat \<Rightarrow> string \<Rightarrow> string \<Rightarrow> string list" where
  "diff_fragment lineNum oldLine ln =
     [''    @@ -'' @ js_String lineNum @ '',1 +'' @ js_String lineNum @ '',1 @@'',
      ''    - '' @ oldLine,
      ''    + '' @ ln]"

text \<open>The callback of \<^verbatim>\<open>lines.flatMap\<close>, for the line at index \<open>i\<close>.\<close>

definition line_changes ::
  "PathModule \<Rightarrow> string \<Rightarrow> string \<Rightarrow> string \<Rightarrow> nat \<Rightarrow> string \<Rightarrow> string list" where
  "line_changes path file oldPath newPath i ln =
     (let lineNum = i + 1
      in concat (map (match_change path file oldPath newPath lineNum ln) (import_paths ln)))"

text \<open>
  \<^verbatim>\<open>analyzeImportChanges\<close>. \<open>readFile\<close> is \<^verbatim>\<open>fs.readFile(file, "utf-8")\<close>: the
  text, or the message of the rejection (\<open>Inl\<close>). The result is a \<^verbatim>\<open>Result\<close>.
\<close>

definition analyzeImportChanges ::
  "PathModule \<Rightarrow> (string \<Rightarrow> string + string) \<Rightarrow> string \<Rightarrow> string \<Rightarrow> string \<Rightarrow>
   string + string list" where
  "analyzeImportChanges path readFile file oldPath newPath =
     (case readFile file of
        Inl e \<Rightarrow> Inr [placeholder]
      | Inr content \<Rightarrow>
          let lines = split_lines content;
              importChanges =
                concat (map (\<lambda>(i, ln). line_changes path file oldPath newPath i ln)
                          (enumerate 0 lines))
          in Inr (if length importChanges > 0 then importChanges else [placeholder]))"

text \<open>
  The arrow of the report is U+2192, the one code unit of the program's literals above
  255. It is written as its three UTF-8 bytes; the program only concatenates it.
\<close>

definition arrow :: string where
  "arrow = [CHR 0xE2, CHR 0x86, CHR 0x92]"

text \<open>The callback of \<^verbatim>\<open>changedFiles.map\<close>: the block of one changed file.\<close>

definition file_block ::
  "PathModule \<Rightarrow> (string \<Rightarrow> string + string) \<Rightarrow> string \<Rightarrow> string \<Rightarrow> string \<Rightarrow> string \<Rightarrow>
   string + string list" where
  "file_block path readFile oldPath newPath root_dir file =
     (let oldRelativePath = path_relative path root_dir oldPath;
          newRelativePath = path_relative path root_dir newPath
      in if file = oldPath
         then Inr [''  File moved: '' @ oldRelativePath @ '' '' @ arrow @ '' '' @ newRelativePath]
         else let relativePath = path_relative path root_dir file
              in (case analyzeImportChanges path readFile file oldPath newPath of
                    Inl e \<Rightarrow> Inl e
                  | Inr v \<Rightarrow> Inr ((''  '' @ relativePath @ '':'') # v)))"

text \<open>
  The loop \<^verbatim>\<open>for (const fileResult of fileResults)\<close>: the first error is returned,
  otherwise the lines are appended to the output.
\<close>

fun collect_blocks :: "string list \<Rightarrow> (string + string list) list \<Rightarrow> string + string list" where
  "collect_blocks output [] = Inr output"
| "collect_blocks output (Inl e # rs) = Inl e"
| "collect_blocks output (Inr v # rs) = collect_blocks (output @ v) rs"

text \<open>\<^verbatim>\<open>formatMoveFileResult\<close>.\<close>

definition formatMoveFileResult ::
  "PathModule \<Rightarrow> (string \<Rightarrow> string + string) \<Rightarrow> MoveFileResult \<Rightarrow> string \<Rightarrow> string \<Rightarrow>
   string \<Rightarrow> string + string" where
  "formatMoveFileResult path readFile result oldPath newPath root_dir =
     (let output = [move_message result @ ''. Updated imports in ''
                      @ js_String (length (changedFiles result)) @ '' file(s).'',
                    [],
                    ''Changes:''];
          fileResults = map (file_block path readFile oldPath newPath root_dir)
                          (changedFiles result)
      in case collect_blocks output fileResults of
           Inl e \<Rightarrow> Inl e
         | Inr out \<Rightarrow> Inr (js_join newline out))"

section \<open>Concrete inputs\<close>

text \<open>
  A ten-line file in which \<^verbatim>\<open>bar\<close> first appears on line 5, a disk that holds it as
  \<^verbatim>\<open>/w/foo.ts\<close> and nothing else, a client that accepts every document and gives
  one fixed answer, and the dependencies of the hover tool built from them and from the
  resolver of the specification (where reading a property of \<^verbatim>\<open>undefined\<close> throws).
\<close>

definition foo_ts :: string where
  "foo_ts = js_join newline
     [''a'', ''b'', ''c'', ''d'', ''let bar = 1'', ''f'', ''bar'', ''h'', ''i'', ''j'']"

definition disk_with_foo :: "string \<Rightarrow> string + string" where
  "disk_with_foo p = (if p = ''/w/foo.ts'' then Inr foo_ts else Inl (''ENOENT: '' @ p))"

definition empty_disk :: "string \<Rightarrow> string + string" where
  "empty_disk p = Inl (''ENOENT: '' @ p)"

definition answering_client :: "HoverResult option \<Rightarrow> LSPClient" where
  "answering_client answer =
     \<lparr>openDocument = (\<lambda>uri fileText. None),
      client_getHover = (\<lambda>uri pos. Inr answer)\<rparr>"

definition refusing_client :: LSPClient where
  "refusing_client =
     \<lparr>openDocument = (\<lambda>uri fileText. Some ''Connection is closed''),
      client_getHover = (\<lambda>uri pos. Inr None)\<rparr>"

definition as_resolved :: "string + 'a \<Rightarrow> 'a Resolved" where
  "as_resolved r = (case r of Inl e \<Rightarrow> NotFound e | Inr x \<Rightarrow> Found x)"

definition symbol_in_line :: "string option \<Rightarrow> string \<Rightarrow> nat Resolved" where
  "symbol_in_line lineText t =
     (case lineText of
        None \<Rightarrow> Raised ''Cannot read properties of undefined''
      | Some l \<Rightarrow> as_resolved (findSymbolInLine_spec l t))"

definition hover_deps ::
  "string + LSPClient \<Rightarrow> (string \<Rightarrow> string + string) \<Rightarrow> HoverDeps" where
  "hover_deps client disk =
     \<lparr>getActiveClient = client,
      readFileSync = (\<lambda>time. disk),
      parseLineNumber = (\<lambda>lines l. as_resolved (parseLineNumber_spec lines l)),
      findSymbolInLine = symbol_in_line,
      findTargetInFile = (\<lambda>lines t. as_resolved (findTargetInFile_spec lines t))\<rparr>"

definition bar_request :: "LineSpec option \<Rightarrow> GetHoverRequest" where
  "bar_request l = \<lparr>root = ''/w'', filePath = ''foo.ts'', reqLine = l, target = ''bar''\<rparr>"

text \<open>
  A project model that tracks \<^verbatim>\<open>/r/src/a.ts\<close> only and refuses to move onto an
  existing destination unless told to overwrite; projects are named by strings.
\<close>

definition moved_result :: MoveFileResult where
  "moved_result =
     \<lparr>move_message = ''Moved file from /r/src/a.ts to /r/src/sub/a.ts'',
      changedFiles = [''/r/src/a.ts'', ''/r/src/b.ts'']\<rparr>"

definition project_model :: "string MoveDeps" where
  "project_model =
     \<lparr>findProjectForFile = (\<lambda>p. Inr ''project''),
      getOrCreateSourceFileWithRefresh =
        (\<lambda>p. if p = ''/r/src/a.ts'' then None else Some ''File not found''),
      moveFile = (\<lambda>project args.
        if overwrite args then Returned (Inr moved_result)
        else Returned (Inl ''Destination file already exists'')),
      save = (\<lambda>project. None)\<rparr>"

text \<open>
  Importers of the moved file, as the disk holds them after the move: \<^verbatim>\<open>b.ts\<close> with
  its import rewritten, \<^verbatim>\<open>c.ts\<close> without any import, \<^verbatim>\<open>d.ts\<close> whose import
  still names the old path, and \<^verbatim>\<open>e.ts\<close> which imports another module.
\<close>

definition b_ts :: string where
  "b_ts = ''import {x} from '' @ dquote @ ''./sub/a'' @ dquote @ '';''"

definition c_ts :: string where
  "c_ts = ''export const y = 1;''"

definition d_ts :: string where
  "d_ts = ''import {x} from '' @ dquote @ ''./a.ts'' @ dquote @ '';''"

definition e_ts :: string where
  "e_ts = ''import {z} from '' @ dquote @ ''./other'' @ dquote @ '';''"

definition src_disk :: "string \<Rightarrow> string + string" where
  "src_disk p =
     (if p = ''/r/src/b.ts'' then Inr b_ts
      else if p = ''/r/src/c.ts'' then Inr c_ts
      else if p = ''/r/src/d.ts'' then Inr d_ts
      else if p = ''/r/src/e.ts'' then Inr e_ts
      else Inl (''ENOENT: '' @ p))"

section \<open>Facts about the string helpers\<close>

lemma join_from_append: "join_from sep (a @ R) xs = a @ join_from sep R xs"
  by (induction xs arbitrary: R) simp_all

lemma js_join_Cons2: "js_join sep (x # y # ys) = x @ sep @ js_join sep (y # ys)"
proof -
  have "join_from sep (x @ sep @ y) ys = (x @ sep) @ join_from sep y ys"
    using join_from_append [of sep "x @ sep" y ys] by simp
  then show ?thesis by (simp add: js_join_def)
qed

lemma js_join_newline_separated: "js_join newline vs = newline_separated vs"
proof (induction vs rule: newline_separated.induct)
  case 1
  show ?case by (simp add: js_join_def)
next
  case (2 v)
  show ?case by (simp add: js_join_def)
next
  case (3 v w vs)
  then show ?case by (simp add: js_join_Cons2)
qed

section \<open>Facts about the hover operation\<close>

lemma split_on_nonempty: "split_on sep s \<noteq> []"
  by (induction s) (simp_all split: list.splits)

lemma split_lines_nonempty: "split_lines s \<noteq> []"
  by (simp add: split_lines_def split_on_nonempty)

lemma js_nth_last: "xs \<noteq> [] \<Longrightarrow> js_nth xs (length xs - Suc 0) = Some (last xs)"
  by (simp add: js_nth_def last_conv_nth)

lemma formatHoverResult_null:
  "formatHoverResult path read None request l c =
     Inr \<lparr>message = ''No hover information available for '' @ dquote @ target request @ dquote
               @ '' at '' @ filePath request @ '':'' @ js_String (l + 1) @ '':''
               @ js_String (c + 1),
          hover = None\<rparr>"
  by (simp add: formatHoverResult_def location_text_def)

lemma formatHoverResult_range:
  assumes "lsp_range res = Some r"
  shows "formatHoverResult path read (Some res) request l c =
     Inr \<lparr>message = ''Hover information for '' @ location_text request l c,
          hover = Some \<lparr>hover_contents = formatHoverContents (contents res),
            hover_range = Some
              \<lparr>range_start = \<lparr>line = line (range_start r) + 1,
                               character = character (range_start r) + 1\<rparr>,
               range_end = \<lparr>line = line (range_end r) + 1,
                             character = character (range_end r) + 1\<rparr>\<rparr>\<rparr>\<rparr>"
  using assms by (simp add: formatHoverResult_def)

lemma formatHoverResult_whole_file:
  assumes "lsp_range res = None"
    and "read (path_resolve path (root request) (filePath request)) = Inr fileText"
  shows "formatHoverResult path read (Some res) request l c =
     Inr \<lparr>message = ''Hover information for '' @ location_text request l c,
          hover = Some \<lparr>hover_contents = formatHoverContents (contents res),
            hover_range = Some
              \<lparr>range_start = \<lparr>line = 1, character = 1\<rparr>,
               range_end = \<lparr>line = length (split_lines fileText),
                             character = length (last (split_lines fileText))\<rparr>\<rparr>\<rparr>\<rparr>"
  using assms by (simp add: formatHoverResult_def Let_def js_nth_last split_lines_nonempty)

lemma formatHoverResult_unreadable:
  assumes "lsp_range res = None"
    and "read (path_resolve path (root request) (filePath request)) = Inl e"
  shows "formatHoverResult path read (Some res) request l c = Inl e"
  using assms by (simp add: formatHoverResult_def)



lemma open_and_hover_cases:
  "(\<exists>e. openDocument client uri fileText = Some e
        \<and> open_and_hover path deps client request uri fileText l c
            = (Inl e, [OpenDocument uri fileText]))
   \<or> (openDocument client uri fileText = None
      \<and> (\<exists>e. client_getHover client uri \<lparr>line = l, character = c\<rparr> = Inl e
            \<and> open_and_hover path deps client request uri fileText l c
                = (Inl e, [OpenDocument uri fileText, SettleDelay 1000,
                           GetHover uri \<lparr>line = l, character = c\<rparr>])))
   \<or> (openDocument client uri fileText = None
      \<and> (\<exists>answer. client_getHover client uri \<lparr>line = l, character = c\<rparr> = Inr answer
            \<and> open_and_hover path deps client request uri fileText l c
                = (formatHoverResult path (readFileSync deps 1000) answer request l c,
                   [OpenDocument uri fileText, SettleDelay 1000,
                    GetHover uri \<lparr>line = l, character = c\<rparr>])))"
  by (cases "openDocument client uri fileText";
      cases "client_getHover client uri \<lparr>line = l, character = c\<rparr>")
     (simp_all add: open_and_hover_def Let_def)

text \<open>Every invocation either fails before the server is contacted, or runs the shared tail.\<close>

lemma getHover_cases:
  "(\<exists>e. getHover path deps request = (Inl e, []))
   \<or> (\<exists>client fileText l c.
        getActiveClient deps = Inr client
        \<and> readFileSync deps 0 (path_resolve path (root request) (filePath request)) = Inr fileText
        \<and> getHover path deps request =
            open_and_hover path deps client request
              (''file://'' @ path_resolve path (root request) (filePath request)) fileText l c)"
  by (auto simp: getHover_def getHoverWithoutLine_def Let_def
           split: option.splits sum.splits prod.splits Resolved.splits)


lemma formatHoverResult_Some_hover:
  "formatHoverResult path read (Some res) request l c = Inr r \<Longrightarrow> hover r \<noteq> None"
  by (auto simp: formatHoverResult_def Let_def split: option.splits sum.splits)

lemma getHover_null_hover_only_from_server:
  assumes ok: "fst (getHover path deps request) = Inr r" and null: "hover r = None"
  shows "\<exists>client uri fileText pos.
           getActiveClient deps = Inr client
           \<and> snd (getHover path deps request) =
               [OpenDocument uri fileText, SettleDelay 1000, GetHover uri pos]
           \<and> client_getHover client uri pos = Inr None"
proof -
  from getHover_cases [of path deps request] ok
  obtain client u t l c where client: "getActiveClient deps = Inr client"
    and g: "getHover path deps request = open_and_hover path deps client request u t l c"
    by auto
  from open_and_hover_cases [of client u t path deps request l c] g ok
  obtain answer where a: "client_getHover client u \<lparr>line = l, character = c\<rparr> = Inr answer"
    and g': "getHover path deps request =
          (formatHoverResult path (readFileSync deps 1000) answer request l c,
           [OpenDocument u t, SettleDelay 1000, GetHover u \<lparr>line = l, character = c\<rparr>])"
    by auto
  have "answer = None"
  proof (cases answer)
    case None then show ?thesis .
  next
    case (Some res)
    with g' ok have "formatHoverResult path (readFileSync deps 1000) (Some res) request l c = Inr r"
      by simp
    from formatHoverResult_Some_hover [OF this] null show ?thesis by simp
  qed
  with client a g' show ?thesis by auto
qed

lemma getHover_no_client:
  "getActiveClient deps = Inl e \<Longrightarrow> getHover path deps request = (Inl e, [])"
  by (simp add: getHover_def getHoverWithoutLine_def split: option.splits)

lemma getHover_unreadable:
  "getActiveClient deps = Inr client \<Longrightarrow>
   readFileSync deps 0 (path_resolve path (root request) (filePath request)) = Inl e \<Longrightarrow>
   getHover path deps request = (Inl e, [])"
  by (simp add: getHover_def getHoverWithoutLine_def split: option.splits)

lemma getHover_line_not_found:
  "getActiveClient deps = Inr client \<Longrightarrow>
   readFileSync deps 0 (path_resolve path (root request) (filePath request)) = Inr fileText \<Longrightarrow>
   reqLine request = Some l \<Longrightarrow>
   parseLineNumber deps (split_lines fileText) l = NotFound e \<Longrightarrow>
   getHover path deps request = (Inl (e @ '' in '' @ filePath request), [])"
  by (simp add: getHover_def)

lemma getHover_symbol_not_found:
  "getActiveClient deps = Inr client \<Longrightarrow>
   readFileSync deps 0 (path_resolve path (root request) (filePath request)) = Inr fileText \<Longrightarrow>
   reqLine request = Some l \<Longrightarrow>
   parseLineNumber deps (split_lines fileText) l = Found targetLine \<Longrightarrow>
   findSymbolInLine deps (js_nth (split_lines fileText) targetLine) (target request) = NotFound e \<Longrightarrow>
   getHover path deps request = (Inl (e @ '' on line '' @ js_String (targetLine + 1)), [])"
  by (simp add: getHover_def)

lemma getHover_target_not_found:
  "getActiveClient deps = Inr client \<Longrightarrow>
   readFileSync deps 0 (path_resolve path (root request) (filePath request)) = Inr fileText \<Longrightarrow>
   reqLine request = None \<Longrightarrow>
   findTargetInFile deps (split_lines fileText) (target request) = NotFound e \<Longrightarrow>
   getHover path deps request = (Inl (e @ '' in '' @ filePath request), [])"
  by (simp add: getHover_def getHoverWithoutLine_def)

lemma getHover_resolved:
  assumes "getActiveClient deps = Inr client"
    and "readFileSync deps 0 (path_resolve path (root request) (filePath request)) = Inr fileText"
    and "resolved_at deps request fileText l c"
  shows "getHover path deps request =
           open_and_hover path deps client request
             (''file://'' @ path_resolve path (root request) (filePath request)) fileText l c"
  using assms
  by (cases "reqLine request")
     (simp_all add: getHover_def getHoverWithoutLine_def resolved_at_def Let_def)

lemma getHover_unresolved:
  assumes "getActiveClient deps = Inr client"
    and "readFileSync deps 0 (path_resolve path (root request) (filePath request)) = Inr fileText"
    and "\<forall>l c. \<not> resolved_at deps request fileText l c"
  shows "\<exists>e. getHover path deps request = (Inl e, [])"
proof (cases "reqLine request")
  case None
  with assms(3) have "\<forall>l c. findTargetInFile deps (split_lines fileText) (target request)
                         \<noteq> Found (l, c)"
    by (simp add: resolved_at_def)
  then show ?thesis using assms(1,2) None
    by (cases "findTargetInFile deps (split_lines fileText) (target request)")
       (auto simp: getHover_def getHoverWithoutLine_def Let_def)
next
  case (Some ls)
  show ?thesis
  proof (cases "parseLineNumber deps (split_lines fileText) ls")
    case (Found l)
    with assms(3) Some
    have "\<forall>c. findSymbolInLine deps (js_nth (split_lines fileText) l) (target request) \<noteq> Found c"
      by (simp add: resolved_at_def)
    then show ?thesis using assms(1,2) Some Found
      by (cases "findSymbolInLine deps (js_nth (split_lines fileText) l) (target request)")
         (auto simp: getHover_def Let_def)
  next
    case (NotFound e)
    then show ?thesis using assms(1,2) Some by (simp add: getHover_def Let_def)
  next
    case (Raised e)
    then show ?thesis using assms(1,2) Some by (simp add: getHover_def Let_def)
  qed
qed

lemma open_and_hover_refused:
  "openDocument client uri fileText = Some e \<Longrightarrow>
   open_and_hover path deps client request uri fileText l c = (Inl e, [OpenDocument uri fileText])"
  by (simp add: open_and_hover_def)

lemma open_and_hover_trace:
  "openDocument client uri fileText = None \<Longrightarrow>
   snd (open_and_hover path deps client request uri fileText l c) =
     [OpenDocument uri fileText, SettleDelay 1000, GetHover uri \<lparr>line = l, character = c\<rparr>]"
  by (simp add: open_and_hover_def Let_def split: sum.splits)

lemma open_and_hover_rejected:
  "openDocument client uri fileText = None \<Longrightarrow>
   client_getHover client uri \<lparr>line = l, character = c\<rparr> = Inl e \<Longrightarrow>
   open_and_hover path deps client request uri fileText l c =
     (Inl e, [OpenDocument uri fileText, SettleDelay 1000,
              GetHover uri \<lparr>line = l, character = c\<rparr>])"
  by (simp add: open_and_hover_def Let_def)

lemma open_and_hover_null:
  "openDocument client uri fileText = None \<Longrightarrow>
   client_getHover client uri \<lparr>line = l, character = c\<rparr> = Inr None \<Longrightarrow>
   open_and_hover path deps client request uri fileText l c =
     (Inr \<lparr>message = ''No hover information available for '' @ dquote @ target request
                @ dquote @ '' at '' @ filePath request @ '':'' @ js_String (l + 1)
                @ '':'' @ js_String (c + 1),
           hover = None\<rparr>,
      [OpenDocument uri fileText, SettleDelay 1000, GetHover uri \<lparr>line = l, character = c\<rparr>])"
  by (simp add: open_and_hover_def Let_def formatHoverResult_null)

section \<open>Facts about searching a line\<close>

lemma startsWith_take: "startsWith s p \<longleftrightarrow> take (length p) s = p"
  by (induction s p rule: startsWith.induct) auto

lemma occurs_at_0: "occurs_at s p 0 \<longleftrightarrow> startsWith s p"
  by (simp add: occurs_at_def startsWith_take)

lemma occurs_at_Suc: "occurs_at (c # cs) p (Suc i) \<longleftrightarrow> occurs_at cs p i"
  by (simp add: occurs_at_def)

lemma indexOf_None: "indexOf s p = None \<longleftrightarrow> (\<forall>i. \<not> occurs_at s p i)"
proof (induction s)
  case Nil
  show ?case by (auto simp: occurs_at_def)
next
  case (Cons c cs)
  show ?case
  proof (cases "startsWith (c # cs) p")
    case True
    then show ?thesis using occurs_at_0 [of "c # cs" p] by auto
  next
    case False
    have "(\<forall>i. \<not> occurs_at (c # cs) p i) \<longleftrightarrow> (\<forall>i. \<not> occurs_at cs p i)"
    proof
      assume a: "\<forall>i. \<not> occurs_at (c # cs) p i"
      show "\<forall>i. \<not> occurs_at cs p i"
      proof
        fix i from a have "\<not> occurs_at (c # cs) p (Suc i)" by blast
        then show "\<not> occurs_at cs p i" by (simp add: occurs_at_Suc)
      qed
    next
      assume a: "\<forall>i. \<not> occurs_at cs p i"
      show "\<forall>i. \<not> occurs_at (c # cs) p i"
      proof
        fix i show "\<not> occurs_at (c # cs) p i"
          using a False by (cases i) (simp_all add: occurs_at_0 occurs_at_Suc)
      qed
    qed
    with False Cons show ?thesis by simp
  qed
qed

lemma indexOf_Some: "indexOf s p = Some i \<Longrightarrow> occurs_at s p i \<and> (\<forall>j<i. \<not> occurs_at s p j)"
proof (induction s arbitrary: i)
  case Nil
  then show ?case by (auto simp: occurs_at_def split: if_splits)
next
  case (Cons c cs)
  show ?case
  proof (cases "startsWith (c # cs) p")
    case True
    with Cons.prems show ?thesis by (simp add: occurs_at_0)
  next
    case False
    with Cons.prems obtain k where k: "indexOf cs p = Some k" "i = Suc k" by auto
    from Cons.IH [OF k(1)] have ih: "occurs_at cs p k" "\<forall>j<k. \<not> occurs_at cs p j" by auto
    have "\<not> occurs_at (c # cs) p j" if "j < i" for j
      using that False ih(2) k(2) by (cases j) (simp_all add: occurs_at_0 occurs_at_Suc)
    with ih(1) k(2) show ?thesis by (simp add: occurs_at_Suc)
  qed
qed

lemma find_upt_first:
  assumes "P i" and "i < n"
  shows "\<exists>j. find P [0..<n] = Some j \<and> P j \<and> j \<le> i"
proof -
  from assms have "\<exists>x \<in> set [0..<n]. P x" by auto
  then obtain j where j: "find P [0..<n] = Some j"
    by (cases "find P [0..<n]") (auto simp: find_None_iff)
  then obtain k where k: "k < length [0..<n]" "P ([0..<n] ! k)" "j = [0..<n] ! k"
      "\<forall>m<k. \<not> P ([0..<n] ! m)"
    by (auto simp: find_Some_iff)
  then have "j = k" "P j" by auto
  have "j \<le> i"
  proof (rule ccontr)
    assume "\<not> j \<le> i"
    then have "i < k" using \<open>j = k\<close> by simp
    with k(4) assms k(1) show False by auto
  qed
  with j \<open>P j\<close> show ?thesis by blast
qed

section \<open>Facts about the move operation\<close>

lemma handleMoveFile_preflight:
  assumes "findProjectForFile deps (path_join path root_dir oldPath) = Inr project"
    and "getOrCreateSourceFileWithRefresh deps (path_join path root_dir oldPath) = Some x"
  shows "handleMoveFile path deps root_dir oldPath newPath ow =
           (Returned (Inl (''File not found: '' @ path_join path root_dir oldPath)),
            [FindProject (path_join path root_dir oldPath),
             LoadSourceFile (path_join path root_dir oldPath)])"
  using assms by (simp add: handleMoveFile_def Let_def)

lemma handleMoveFile_move_error:
  assumes "findProjectForFile deps (path_join path root_dir oldPath) = Inr project"
    and "getOrCreateSourceFileWithRefresh deps (path_join path root_dir oldPath) = None"
    and "moveFile deps project
           \<lparr>oldFilename = path_join path root_dir oldPath,
            newFilename = path_join path root_dir newPath, overwrite = ow\<rparr> = Returned (Inl e)"
  shows "handleMoveFile path deps root_dir oldPath newPath ow =
           (Returned (Inl e),
            [FindProject (path_join path root_dir oldPath),
             LoadSourceFile (path_join path root_dir oldPath),
             MoveFile project
               \<lparr>oldFilename = path_join path root_dir oldPath,
                newFilename = path_join path root_dir newPath, overwrite = ow\<rparr>])"
  using assms by (simp add: handleMoveFile_def Let_def)

lemma handleMoveFile_error_no_save:
  assumes "fst (handleMoveFile path deps root_dir oldPath newPath ow) = Returned (Inl e)"
  shows "Save p \<notin> set (snd (handleMoveFile path deps root_dir oldPath newPath ow))"
  using assms
  by (auto simp: handleMoveFile_def Let_def split: sum.splits option.splits Completion.splits)

lemma handleMoveFile_error_cause:
  assumes "fst (handleMoveFile path deps root_dir oldPath newPath ow) = Returned (Inl e)"
  shows "\<exists>project. findProjectForFile deps (path_join path root_dir oldPath) = Inr project
           \<and> ((\<exists>x. getOrCreateSourceFileWithRefresh deps (path_join path root_dir oldPath) = Some x)
                 \<and> e = ''File not found: '' @ path_join path root_dir oldPath
               \<or> getOrCreateSourceFileWithRefresh deps (path_join path root_dir oldPath) = None
                 \<and> moveFile deps project
                     \<lparr>oldFilename = path_join path root_dir oldPath,
                      newFilename = path_join path root_dir newPath, overwrite = ow\<rparr>
                   = Returned (Inl e))"
  using assms
  by (auto simp: handleMoveFile_def Let_def split: sum.splits option.splits Completion.splits)

lemma handleMoveFile_save_only_after_move:
  assumes "Save p \<in> set (snd (handleMoveFile path deps root_dir oldPath newPath ow))"
  shows "\<exists>v. moveFile deps p
               \<lparr>oldFilename = path_join path root_dir oldPath,
                newFilename = path_join path root_dir newPath, overwrite = ow\<rparr>
             = Returned (Inr v)"
  using assms
  by (auto simp: handleMoveFile_def Let_def split: sum.splits option.splits Completion.splits)

section \<open>Facts about the move report\<close>

lemma match_change_eq:
  "match_change path file oldPath newPath n ln p =
     (if refers_to_moved path file newPath p
         \<and> reconstructed_old_line path file oldPath ln p \<noteq> ln
      then diff_fragment n (reconstructed_old_line path file oldPath ln p) ln
      else [])"
  by (simp add: match_change_def refers_to_moved_def reconstructed_old_line_def
        old_relative_path_def diff_fragment_def Let_def)

lemma analyzeImportChanges_unreadable:
  "readFile file = Inl e \<Longrightarrow>
   analyzeImportChanges path readFile file oldPath newPath = Inr [placeholder]"
  by (simp add: analyzeImportChanges_def)

lemma analyzeImportChanges_readable:
  "readFile file = Inr content \<Longrightarrow>
   analyzeImportChanges path readFile file oldPath newPath =
     Inr (let importChanges =
                concat (map (\<lambda>(i, ln). line_changes path file oldPath newPath i ln)
                          (enumerate 0 (split_lines content)))
          in if importChanges = [] then [placeholder] else importChanges)"
  by (simp add: analyzeImportChanges_def Let_def)

lemma analyzeImportChanges_ok:
  "\<exists>block. analyzeImportChanges path readFile file oldPath newPath = Inr block \<and> block \<noteq> []"
  by (cases "readFile file")
     (simp_all add: analyzeImportChanges_unreadable analyzeImportChanges_readable Let_def)

lemma line_changes_no_match:
  assumes "\<forall>p \<in> set (import_paths ln). \<not> refers_to_moved path file newPath p"
  shows "line_changes path file oldPath newPath i ln = []"
  using assms by (simp add: line_changes_def match_change_eq)

lemma analyzeImportChanges_no_match:
  assumes "readFile file = Inr content"
    and "\<forall>ln \<in> set (split_lines content). \<forall>p \<in> set (import_paths ln).
           \<not> refers_to_moved path file newPath p"
  shows "analyzeImportChanges path readFile file oldPath newPath = Inr [placeholder]"
proof -
  have "line_changes path file oldPath newPath i ln = []"
    if "(i, ln) \<in> set (enumerate 0 (split_lines content))" for i ln
  proof -
    from that have "ln \<in> set (split_lines content)" by (auto simp: in_set_enumerate_eq)
    with assms(2) show ?thesis by (intro line_changes_no_match) blast
  qed
  then have "concat (map (\<lambda>(i, ln). line_changes path file oldPath newPath i ln)
                       (enumerate 0 (split_lines content))) = []"
    by auto
  with assms(1) show ?thesis by (simp add: analyzeImportChanges_readable)
qed

lemma file_block_moved:
  "file_block path readFile oldPath newPath root_dir oldPath =
     Inr [''  File moved: '' @ path_relative path root_dir oldPath @ '' '' @ arrow @ '' ''
            @ path_relative path root_dir newPath]"
  by (simp add: file_block_def)

lemma file_block_other:
  assumes "file \<noteq> oldPath"
    and "analyzeImportChanges path readFile file oldPath newPath = Inr block"
  shows "file_block path readFile oldPath newPath root_dir file =
           Inr ((''  '' @ path_relative path root_dir file @ '':'') # block)"
  using assms by (simp add: file_block_def)

lemma file_block_ok: "\<exists>b. file_block path readFile oldPath newPath root_dir file = Inr b"
proof (cases "file = oldPath")
  case True
  then show ?thesis by (simp add: file_block_moved)
next
  case False
  from analyzeImportChanges_ok [of path readFile "file" oldPath newPath]
  obtain block where "analyzeImportChanges path readFile file oldPath newPath = Inr block"
    by blast
  from file_block_other [OF False this] show ?thesis by blast
qed

lemma collect_blocks_Inr: "collect_blocks output (map Inr bs) = Inr (output @ concat bs)"
  by (induction bs arbitrary: "output") simp_all

lemma file_blocks_all_ok:
  "\<exists>bs. map (file_block path readFile oldPath newPath root_dir) files = map Inr bs
        \<and> length bs = length files
        \<and> (\<forall>k<length files. file_block path readFile oldPath newPath root_dir (files ! k)
                                 = Inr (bs ! k))"
proof (induction files)
  case Nil
  show ?case by simp
next
  case (Cons f fs)
  then obtain bs where bs: "map (file_block path readFile oldPath newPath root_dir) fs = map Inr bs"
    "length bs = length fs"
    "\<forall>k<length fs. file_block path readFile oldPath newPath root_dir (fs ! k) = Inr (bs ! k)"
    by blast
  from file_block_ok [of path readFile oldPath newPath root_dir f]
  obtain b where b: "file_block path readFile oldPath newPath root_dir f = Inr b" by blast
  have "\<forall>k<length (f # fs). file_block path readFile oldPath newPath root_dir ((f # fs) ! k)
          = Inr ((b # bs) ! k)"
  proof (intro allI impI)
    fix k assume "k < length (f # fs)"
    then show "file_block path readFile oldPath newPath root_dir ((f # fs) ! k)
          = Inr ((b # bs) ! k)"
      using b bs(3) by (cases k) simp_all
  qed
  with b bs(1,2) show ?case
    by (intro exI [of _ "b # bs"]) simp
qed

lemma js_join_Cons: "js_join sep (x # xs) = x @ concat (map (\<lambda>y. sep @ y) xs)"
proof -
  have "join_from sep R xs = R @ concat (map (\<lambda>y. sep @ y) xs)" for R
    by (induction xs arbitrary: R) simp_all
  then show ?thesis by (simp add: js_join_def)
qed

lemma formatMoveFileResult_blocks:
  "\<exists>bs. formatMoveFileResult path readFile result oldPath newPath root_dir =
          Inr (js_join newline
                 ([move_message result @ ''. Updated imports in ''
                     @ js_String (length (changedFiles result)) @ '' file(s).'',
                   [], ''Changes:''] @ concat bs))
        \<and> length bs = length (changedFiles result)
        \<and> (\<forall>k<length (changedFiles result).
              file_block path readFile oldPath newPath root_dir (changedFiles result ! k)
                = Inr (bs ! k))"
proof -
  from file_blocks_all_ok [of path readFile oldPath newPath root_dir "changedFiles result"]
  obtain bs where bs:
    "map (file_block path readFile oldPath newPath root_dir) (changedFiles result) = map Inr bs"
    "length bs = length (changedFiles result)"
    "\<forall>k<length (changedFiles result).
       file_block path readFile oldPath newPath root_dir (changedFiles result ! k) = Inr (bs ! k)"
    by blast
  have "formatMoveFileResult path readFile result oldPath newPath root_dir =
          Inr (js_join newline
                 ([move_message result @ ''. Updated imports in ''
                     @ js_String (length (changedFiles result)) @ '' file(s).'',
                   [], ''Changes:''] @ concat bs))"
    by (simp add: formatMoveFileResult_def Let_def bs(1) collect_blocks_Inr)
  with bs(2,3) show ?thesis by blast
qed

lemma formatMoveFileResult_ok:
  "\<exists>out. formatMoveFileResult path readFile result oldPath newPath root_dir = Inr out"
  using formatMoveFileResult_blocks [of path readFile result oldPath newPath root_dir] by blast





section \<open>Facts about the place of a captured import path\<close>











section \<open>A failed move saves nothing\<close>

text \<open>
  C1. If the source file cannot be loaded in preflight, \<^verbatim>\<open>handleMoveFile\<close> returns
  the error \<^verbatim>\<open>File not found: <absolute old path>\<close> and the move primitive is not
  called; if the move primitive returns an error (for instance because the destination
  exists and \<^verbatim>\<open>overwrite\<close> is false), that error is returned. Whenever an error is
  returned, \<^verbatim>\<open>project.save()\<close> has not been called, and it was one of these two
  errors; \<^verbatim>\<open>save\<close> is only ever called after the move primitive succeeded.
\<close>

theorem C1_failed_move_saves_nothing:
  "(findProjectForFile deps (path_join path root_dir oldPath) = Inr project \<longrightarrow>
    getOrCreateSourceFileWithRefresh deps (path_join path root_dir oldPath) = Some x \<longrightarrow>
      handleMoveFile path deps root_dir oldPath newPath ow =
        (Returned (Inl (''File not found: '' @ path_join path root_dir oldPath)),
         [FindProject (path_join path root_dir oldPath),
          LoadSourceFile (path_join path root_dir oldPath)]))
   \<and> (findProjectForFile deps (path_join path root_dir oldPath) = Inr project \<longrightarrow>
      getOrCreateSourceFileWithRefresh deps (path_join path root_dir oldPath) = None \<longrightarrow>
      moveFile deps project
        \<lparr>oldFilename = path_join path root_dir oldPath,
         newFilename = path_join path root_dir newPath, overwrite = ow\<rparr> = Returned (Inl e) \<longrightarrow>
        handleMoveFile path deps root_dir oldPath newPath ow =
          (Returned (Inl e),
           [FindProject (path_join path root_dir oldPath),
            LoadSourceFile (path_join path root_dir oldPath),
            MoveFile project
              \<lparr>oldFilename = path_join path root_dir oldPath,
               newFilename = path_join path root_dir newPath, overwrite = ow\<rparr>]))
   \<and> (fst (handleMoveFile path deps root_dir oldPath newPath ow) = Returned (Inl e') \<longrightarrow>
        Save p \<notin> set (snd (handleMoveFile path deps root_dir oldPath newPath ow)))
   \<and> (Save p \<in> set (snd (handleMoveFile path deps root_dir oldPath newPath ow)) \<longrightarrow>
        (\<exists>v. moveFile deps p
                \<lparr>oldFilename = path_join path root_dir oldPath,
                 newFilename = path_join path root_dir newPath, overwrite = ow\<rparr>
              = Returned (Inr v)))
   \<and> (fst (handleMoveFile path deps root_dir oldPath newPath ow) = Returned (Inl e') \<longrightarrow>
        (\<exists>project'. findProjectForFile deps (path_join path root_dir oldPath) = Inr project'
           \<and> ((\<exists>x'. getOrCreateSourceFileWithRefresh deps (path_join path root_dir oldPath)
                       = Some x')
                 \<and> e' = ''File not found: '' @ path_join path root_dir oldPath
               \<or> getOrCreateSourceFileWithRefresh deps (path_join path root_dir oldPath) = None
                 \<and> moveFile deps project'
                     \<lparr>oldFilename = path_join path root_dir oldPath,
                      newFilename = path_join path root_dir newPath, overwrite = ow\<rparr>
                   = Returned (Inl e'))))"
proof (intro conjI impI)
  assume "findProjectForFile deps (path_join path root_dir oldPath) = Inr project"
    and "getOrCreateSourceFileWithRefresh deps (path_join path root_dir oldPath) = Some x"
  then show "handleMoveFile path deps root_dir oldPath newPath ow =
        (Returned (Inl (''File not found: '' @ path_join path root_dir oldPath)),
         [FindProject (path_join path root_dir oldPath),
          LoadSourceFile (path_join path root_dir oldPath)])"
    by (rule handleMoveFile_preflight)
next
  assume "findProjectForFile deps (path_join path root_dir oldPath) = Inr project"
    and "getOrCreateSourceFileWithRefresh deps (path_join path root_dir oldPath) = None"
    and "moveFile deps project
        \<lparr>oldFilename = path_join path root_dir oldPath,
         newFilename = path_join path root_dir newPath, overwrite = ow\<rparr> = Returned (Inl e)"
  then show "handleMoveFile path deps root_dir oldPath newPath ow =
          (Returned (Inl e),
           [FindProject (path_join path root_dir oldPath),
            LoadSourceFile (path_join path root_dir oldPath),
            MoveFile project
              \<lparr>oldFilename = path_join path root_dir oldPath,
               newFilename = path_join path root_dir newPath, overwrite = ow\<rparr>])"
    by (rule handleMoveFile_move_error)
next
  assume "fst (handleMoveFile path deps root_dir oldPath newPath ow) = Returned (Inl e')"
  then show "Save p \<notin> set (snd (handleMoveFile path deps root_dir oldPath newPath ow))"
    by (rule handleMoveFile_error_no_save)
next
  assume "Save p \<in> set (snd (handleMoveFile path deps root_dir oldPath newPath ow))"
  then show "\<exists>v. moveFile deps p
                \<lparr>oldFilename = path_join path root_dir oldPath,
                 newFilename = path_join path root_dir newPath, overwrite = ow\<rparr>
              = Returned (Inr v)"
    by (rule handleMoveFile_save_only_after_move)
next
  assume "fst (handleMoveFile path deps root_dir oldPath newPath ow) = Returned (Inl e')"
  then show "\<exists>project'. findProjectForFile deps (path_join path root_dir oldPath) = Inr project'
           \<and> ((\<exists>x'. getOrCreateSourceFileWithRefresh deps (path_join path root_dir oldPath)
                       = Some x')
                 \<and> e' = ''File not found: '' @ path_join path root_dir oldPath
               \<or> getOrCreateSourceFileWithRefresh deps (path_join path root_dir oldPath) = None
                 \<and> moveFile deps project'
                     \<lparr>oldFilename = path_join path root_dir oldPath,
                      newFilename = path_join path root_dir newPath, overwrite = ow\<rparr>
                   = Returned (Inl e'))"
    by (rule handleMoveFile_error_cause)
qed

theorem C1_failed_move_witness:
  "handleMoveFile (posix ''/'') project_model ''/r'' ''src/zz.ts'' ''src/sub/a.ts'' False =
     (Returned (Inl ''File not found: /r/src/zz.ts''),
      [FindProject ''/r/src/zz.ts'', LoadSourceFile ''/r/src/zz.ts''])
   \<and> handleMoveFile (posix ''/'') project_model ''/r'' ''src/a.ts'' ''src/sub/a.ts'' False =
     (Returned (Inl ''Destination file already exists''),
      [FindProject ''/r/src/a.ts'', LoadSourceFile ''/r/src/a.ts'',
       MoveFile ''project'' \<lparr>oldFilename = ''/r/src/a.ts'', newFilename = ''/r/src/sub/a.ts'',
                              overwrite = False\<rparr>])
   \<and> Save ''project'' \<notin> set (snd (handleMoveFile (posix ''/'') project_model ''/r'' ''src/a.ts''
                                      ''src/sub/a.ts'' False))
   \<and> handleMoveFile (posix ''/'') project_model ''/r'' ''src/a.ts'' ''src/sub/a.ts'' True =
     (Returned (Inr moved_result),
      [FindProject ''/r/src/a.ts'', LoadSourceFile ''/r/src/a.ts'',
       MoveFile ''project'' \<lparr>oldFilename = ''/r/src/a.ts'', newFilename = ''/r/src/sub/a.ts'',
                              overwrite = True\<rparr>,
       Save ''project''])"
proof -
  have j: "path_join (posix ''/'') ''/r'' ''src/zz.ts'' = ''/r/src/zz.ts''"
    "path_join (posix ''/'') ''/r'' ''src/a.ts'' = ''/r/src/a.ts''"
    "path_join (posix ''/'') ''/r'' ''src/sub/a.ts'' = ''/r/src/sub/a.ts''"
    by code_simp+
  have f: "findProjectForFile project_model q = Inr ''project''" for q
    by (simp add: project_model_def)
  have l: "getOrCreateSourceFileWithRefresh project_model ''/r/src/zz.ts'' = Some ''File not found''"
    "getOrCreateSourceFileWithRefresh project_model ''/r/src/a.ts'' = None"
    by (simp_all add: project_model_def)
  have m: "moveFile project_model ''project''
             \<lparr>oldFilename = ''/r/src/a.ts'', newFilename = ''/r/src/sub/a.ts'', overwrite = False\<rparr>
           = Returned (Inl ''Destination file already exists'')"
    by (simp add: project_model_def)
  note c1 = C1_failed_move_saves_nothing
  from c1 [where path = "posix ''/''" and deps = project_model and root_dir = "''/r''"
        and oldPath = "''src/zz.ts''" and newPath = "''src/sub/a.ts''" and ow = False
        and project = "''project''" and x = "''File not found''" and e = "''none''"
        and e' = "''none''" and p = "''project''", THEN conjunct1] f l j
  have a: "handleMoveFile (posix ''/'') project_model ''/r'' ''src/zz.ts'' ''src/sub/a.ts'' False =
     (Returned (Inl ''File not found: /r/src/zz.ts''),
      [FindProject ''/r/src/zz.ts'', LoadSourceFile ''/r/src/zz.ts''])"
    by simp
  note c1b = c1 [where path = "posix ''/''" and deps = project_model and root_dir = "''/r''"
        and oldPath = "''src/a.ts''" and newPath = "''src/sub/a.ts''" and ow = False
        and project = "''project''" and e = "''Destination file already exists''"
        and e' = "''Destination file already exists''" and p = "''project''"
        and x = "''none''"]
  from c1b [THEN conjunct2, THEN conjunct1] f l j m
  have b: "handleMoveFile (posix ''/'') project_model ''/r'' ''src/a.ts'' ''src/sub/a.ts'' False =
     (Returned (Inl ''Destination file already exists''),
      [FindProject ''/r/src/a.ts'', LoadSourceFile ''/r/src/a.ts'',
       MoveFile ''project'' \<lparr>oldFilename = ''/r/src/a.ts'', newFilename = ''/r/src/sub/a.ts'',
                              overwrite = False\<rparr>])"
    by simp
  from c1b [THEN conjunct2, THEN conjunct2, THEN conjunct1] b
  have c: "Save ''project'' \<notin> set (snd (handleMoveFile (posix ''/'') project_model ''/r''
              ''src/a.ts'' ''src/sub/a.ts'' False))"
    by simp
  have d: "handleMoveFile (posix ''/'') project_model ''/r'' ''src/a.ts'' ''src/sub/a.ts'' True =
     (Returned (Inr moved_result),
      [FindProject ''/r/src/a.ts'', LoadSourceFile ''/r/src/a.ts'',
       MoveFile ''project'' \<lparr>oldFilename = ''/r/src/a.ts'', newFilename = ''/r/src/sub/a.ts'',
                              overwrite = True\<rparr>,
       Save ''project''])"
    by (simp add: handleMoveFile_def Let_def j f l project_model_def)
  from a b c d show ?thesis by blast
qed


section \<open>Hover normalisation agrees on the three shapes\<close>

text \<open>
  C2. For every string \<open>s\<close>, the plain string \<open>s\<close>, the one-element array \<open>[s]\<close> and the
  markup object with value \<open>s\<close> (of either kind) all normalise to \<open>s\<close>; an array of
  fragments normalises to the fragments' values (the string itself, or the value field of
  a typed fragment) with a newline between neighbours.
\<close>

theorem C2_formatHoverContents_shapes:
  "formatHoverContents (Single (Plain s)) = s
   \<and> formatHoverContents (Fragments [Plain s]) = s
   \<and> formatHoverContents (MarkupContent k s) = s
   \<and> formatHoverContents (Fragments cs) = newline_separated (map fragment_text cs)
   \<and> fragment_text (Plain s) = s \<and> fragment_text (Typed l s) = s"
  by (simp add: js_join_newline_separated)

section \<open>A null answer is a success, a failure is an error\<close>

text \<open>
  C3. Let the request resolve to the position (\<open>l\<close>, \<open>c\<close>): there is an active client,
  the file is read, and the text utilities find line index \<open>l\<close> and character index
  \<open>c\<close>. When the server accepts the document and answers \<^verbatim>\<open>null\<close> at that
  position, the operation returns success with \<^verbatim>\<open>hover = null\<close> and the message
  \<^verbatim>\<open>No hover information available for "<target>" at <filePath>:<l+1>:<c+1>\<close>; the
  formatter alone does so for every position. A success with a null hover arises in no
  other way. Without an active client, with an unreadable file, when the line, the symbol
  or the target is not found or the request does not resolve for any other reason, and
  when the server refuses the document or rejects the query, the operation returns an
  error.
\<close>

theorem C3_null_hover_is_success:
  "formatHoverResult path read None request l c =
     Inr \<lparr>message = ''No hover information available for '' @ dquote @ target request @ dquote
               @ '' at '' @ filePath request @ '':'' @ js_String (l + 1) @ '':''
               @ js_String (c + 1),
          hover = None\<rparr>
   \<and> (getActiveClient deps = Inr client \<longrightarrow>
        readFileSync deps 0 (path_resolve path (root request) (filePath request)) = Inr fileText \<longrightarrow>
        resolved_at deps request fileText l c \<longrightarrow>
        openDocument client (''file://'' @ path_resolve path (root request) (filePath request))
          fileText = None \<longrightarrow>
        client_getHover client (''file://'' @ path_resolve path (root request) (filePath request))
          \<lparr>line = l, character = c\<rparr> = Inr None \<longrightarrow>
        getHover path deps request =
          (Inr \<lparr>message = ''No hover information available for '' @ dquote @ target request
                   @ dquote @ '' at '' @ filePath request @ '':'' @ js_String (l + 1)
                   @ '':'' @ js_String (c + 1),
                hover = None\<rparr>,
           [OpenDocument (''file://'' @ path_resolve path (root request) (filePath request))
              fileText,
            SettleDelay 1000,
            GetHover (''file://'' @ path_resolve path (root request) (filePath request))
              \<lparr>line = l, character = c\<rparr>]))
   \<and> (fst (getHover path deps request) = Inr r \<longrightarrow> hover r = None \<longrightarrow>
        (\<exists>client' uri' fileText' pos'.
           getActiveClient deps = Inr client'
           \<and> snd (getHover path deps request) =
               [OpenDocument uri' fileText', SettleDelay 1000, GetHover uri' pos']
           \<and> client_getHover client' uri' pos' = Inr None))
   \<and> (getActiveClient deps = Inl e \<longrightarrow> getHover path deps request = (Inl e, []))
   \<and> (getActiveClient deps = Inr client \<longrightarrow>
        readFileSync deps 0 (path_resolve path (root request) (filePath request)) = Inl e \<longrightarrow>
        getHover path deps request = (Inl e, []))
   \<and> (getActiveClient deps = Inr client \<longrightarrow>
        readFileSync deps 0 (path_resolve path (root request) (filePath request)) = Inr fileText \<longrightarrow>
        (reqLine request = Some ls \<longrightarrow>
           parseLineNumber deps (split_lines fileText) ls = NotFound e \<longrightarrow>
           getHover path deps request = (Inl (e @ '' in '' @ filePath request), []))
        \<and> (reqLine request = Some ls \<longrightarrow>
             parseLineNumber deps (split_lines fileText) ls = Found targetLine \<longrightarrow>
             findSymbolInLine deps (js_nth (split_lines fileText) targetLine) (target request)
               = NotFound e \<longrightarrow>
             getHover path deps request =
               (Inl (e @ '' on line '' @ js_String (targetLine + 1)), []))
        \<and> (reqLine request = None \<longrightarrow>
             findTargetInFile deps (split_lines fileText) (target request) = NotFound e \<longrightarrow>
             getHover path deps request = (Inl (e @ '' in '' @ filePath request), []))
        \<and> ((\<forall>l' c'. \<not> resolved_at deps request fileText l' c') \<longrightarrow>
             (\<exists>e'. getHover path deps request = (Inl e', [])))
        \<and> (resolved_at deps request fileText l c \<longrightarrow>
             openDocument client
               (''file://'' @ path_resolve path (root request) (filePath request)) fileText
               = Some e \<longrightarrow>
             fst (getHover path deps request) = Inl e)
        \<and> (resolved_at deps request fileText l c \<longrightarrow>
             openDocument client
               (''file://'' @ path_resolve path (root request) (filePath request)) fileText
               = None \<longrightarrow>
             client_getHover client
               (''file://'' @ path_resolve path (root request) (filePath request))
               \<lparr>line = l, character = c\<rparr> = Inl e \<longrightarrow>
             fst (getHover path deps request) = Inl e))"
proof (intro conjI impI)
  show "formatHoverResult path read None request l c =
     Inr \<lparr>message = ''No hover information available for '' @ dquote @ target request @ dquote
               @ '' at '' @ filePath request @ '':'' @ js_String (l + 1) @ '':''
               @ js_String (c + 1),
          hover = None\<rparr>"
    by (rule formatHoverResult_null)
next
  let ?uri = "''file://'' @ path_resolve path (root request) (filePath request)"
  assume a: "getActiveClient deps = Inr client"
    "readFileSync deps 0 (path_resolve path (root request) (filePath request)) = Inr fileText"
    "resolved_at deps request fileText l c"
    "openDocument client ?uri fileText = None"
    "client_getHover client ?uri \<lparr>line = l, character = c\<rparr> = Inr None"
  show "getHover path deps request =
          (Inr \<lparr>message = ''No hover information available for '' @ dquote @ target request
                   @ dquote @ '' at '' @ filePath request @ '':'' @ js_String (l + 1)
                   @ '':'' @ js_String (c + 1),
                hover = None\<rparr>,
           [OpenDocument ?uri fileText, SettleDelay 1000,
            GetHover ?uri \<lparr>line = l, character = c\<rparr>])"
    unfolding getHover_resolved [OF a(1) a(2) a(3)]
    by (rule open_and_hover_null [OF a(4) a(5)])
next
  assume "fst (getHover path deps request) = Inr r" and "hover r = None"
  then show "\<exists>client' uri' fileText' pos'.
           getActiveClient deps = Inr client'
           \<and> snd (getHover path deps request) =
               [OpenDocument uri' fileText', SettleDelay 1000, GetHover uri' pos']
           \<and> client_getHover client' uri' pos' = Inr None"
    by (rule getHover_null_hover_only_from_server)
next
  assume "getActiveClient deps = Inl e"
  then show "getHover path deps request = (Inl e, [])"
    by (rule getHover_no_client)
next
  assume "getActiveClient deps = Inr client"
    and "readFileSync deps 0 (path_resolve path (root request) (filePath request)) = Inl e"
  then show "getHover path deps request = (Inl e, [])"
    by (rule getHover_unreadable)
next
  assume "getActiveClient deps = Inr client"
    and "readFileSync deps 0 (path_resolve path (root request) (filePath request)) = Inr fileText"
    and "reqLine request = Some ls"
    and "parseLineNumber deps (split_lines fileText) ls = NotFound e"
  then show "getHover path deps request = (Inl (e @ '' in '' @ filePath request), [])"
    by (rule getHover_line_not_found)
next
  assume "getActiveClient deps = Inr client"
    and "readFileSync deps 0 (path_resolve path (root request) (filePath request)) = Inr fileText"
    and "reqLine request = Some ls"
    and "parseLineNumber deps (split_lines fileText) ls = Found targetLine"
    and "findSymbolInLine deps (js_nth (split_lines fileText) targetLine) (target request)
               = NotFound e"
  then show "getHover path deps request =
               (Inl (e @ '' on line '' @ js_String (targetLine + 1)), [])"
    by (rule getHover_symbol_not_found)
next
  assume "getActiveClient deps = Inr client"
    and "readFileSync deps 0 (path_resolve path (root request) (filePath request)) = Inr fileText"
    and "reqLine request = None"
    and "findTargetInFile deps (split_lines fileText) (target request) = NotFound e"
  then show "getHover path deps request = (Inl (e @ '' in '' @ filePath request), [])"
    by (rule getHover_target_not_found)
next
  assume "getActiveClient deps = Inr client"
    and "readFileSync deps 0 (path_resolve path (root request) (filePath request)) = Inr fileText"
    and "\<forall>l' c'. \<not> resolved_at deps request fileText l' c'"
  then show "\<exists>e'. getHover path deps request = (Inl e', [])"
    by (rule getHover_unresolved)
next
  let ?uri = "''file://'' @ path_resolve path (root request) (filePath request)"
  assume a: "getActiveClient deps = Inr client"
    "readFileSync deps 0 (path_resolve path (root request) (filePath request)) = Inr fileText"
    "resolved_at deps request fileText l c"
    "openDocument client ?uri fileText = Some e"
  show "fst (getHover path deps request) = Inl e"
    unfolding getHover_resolved [OF a(1) a(2) a(3)]
    by (simp only: open_and_hover_refused [OF a(4)] fst_conv)
next
  let ?uri = "''file://'' @ path_resolve path (root request) (filePath request)"
  assume a: "getActiveClient deps = Inr client"
    "readFileSync deps 0 (path_resolve path (root request) (filePath request)) = Inr fileText"
    "resolved_at deps request fileText l c"
    "openDocument client ?uri fileText = None"
    "client_getHover client ?uri \<lparr>line = l, character = c\<rparr> = Inl e"
  show "fst (getHover path deps request) = Inl e"
    unfolding getHover_resolved [OF a(1) a(2) a(3)]
    by (simp only: open_and_hover_rejected [OF a(4) a(5)] fst_conv)
qed

theorem C3_null_hover_witness:
  "getHover (posix ''/'') (hover_deps (Inr (answering_client None)) disk_with_foo)
     (bar_request None) =
     (Inr \<lparr>message = ''No hover information available for '' @ dquote @ ''bar'' @ dquote
                @ '' at foo.ts:5:5'',
           hover = None\<rparr>,
      [OpenDocument ''file:///w/foo.ts'' foo_ts, SettleDelay 1000,
       GetHover ''file:///w/foo.ts'' \<lparr>line = 4, character = 4\<rparr>])
   \<and> getHover (posix ''/'') (hover_deps (Inr (answering_client None)) disk_with_foo)
       (bar_request (Some (LineNumber 7))) =
     (Inr \<lparr>message = ''No hover information available for '' @ dquote @ ''bar'' @ dquote
                @ '' at foo.ts:7:1'',
           hover = None\<rparr>,
      [OpenDocument ''file:///w/foo.ts'' foo_ts, SettleDelay 1000,
       GetHover ''file:///w/foo.ts'' \<lparr>line = 6, character = 0\<rparr>])
   \<and> getHover (posix ''/'') (hover_deps (Inl ''No active LSP client'') disk_with_foo)
         (bar_request None) = (Inl ''No active LSP client'', [])
   \<and> getHover (posix ''/'') (hover_deps (Inr (answering_client None)) empty_disk)
         (bar_request None) = (Inl ''ENOENT: /w/foo.ts'', [])
   \<and> getHover (posix ''/'') (hover_deps (Inr (answering_client None)) disk_with_foo)
         (bar_request (Some (LineNumber 11))) = (Inl ''LineOutOfRange in foo.ts'', [])
   \<and> getHover (posix ''/'') (hover_deps (Inr (answering_client None)) disk_with_foo)
         (bar_request (Some (LineNumber 1))) = (Inl ''SymbolNotFoundOnLine on line 1'', [])
   \<and> getHover (posix ''/'') (hover_deps (Inr (answering_client None)) disk_with_foo)
         ((bar_request None)\<lparr>target := ''qux''\<rparr>) = (Inl ''TargetNotFoundInFile in foo.ts'', [])
   \<and> fst (getHover (posix ''/'') (hover_deps (Inr refusing_client) disk_with_foo)
            (bar_request (Some (LineNumber 7)))) = Inl ''Connection is closed''"
proof -
  let ?client = "answering_client None"
  let ?deps = "hover_deps (Inr ?client) disk_with_foo"
  let ?refusing = "hover_deps (Inr refusing_client) disk_with_foo"
  have p: "path_resolve (posix ''/'') ''/w'' ''foo.ts'' = ''/w/foo.ts''"
    by code_simp
  have client: "getActiveClient ?deps = Inr ?client"
    and no_client: "getActiveClient (hover_deps (Inl ''No active LSP client'') disk_with_foo)
                      = Inl ''No active LSP client''"
    and client': "getActiveClient (hover_deps (Inr ?client) empty_disk) = Inr ?client"
    and client'': "getActiveClient ?refusing = Inr refusing_client"
    by (simp_all add: hover_deps_def)
  have digits: "js_String 5 = ''5''" "js_String 7 = ''7''" "js_String 1 = ''1''"
    by code_simp+
  have read: "readFileSync (hover_deps cl disk_with_foo) 0
                (path_resolve (posix ''/'') (root (bar_request l)) (filePath (bar_request l)))
              = Inr foo_ts" for l cl
    by (simp add: p bar_request_def hover_deps_def disk_with_foo_def)
  have read_qux: "readFileSync ?deps 0 (path_resolve (posix ''/'')
                (root ((bar_request None)\<lparr>target := ''qux''\<rparr>))
                (filePath ((bar_request None)\<lparr>target := ''qux''\<rparr>))) = Inr foo_ts"
    by (simp add: p bar_request_def hover_deps_def disk_with_foo_def)
  have unread: "readFileSync (hover_deps (Inr ?client) empty_disk) 0
                  (path_resolve (posix ''/'') (root (bar_request None))
                     (filePath (bar_request None))) = Inl ''ENOENT: /w/foo.ts''"
    by (simp add: p bar_request_def hover_deps_def empty_disk_def)
  have resolved: "resolved_at ?deps (bar_request None) foo_ts 4 4"
    "resolved_at ?deps (bar_request (Some (LineNumber 7))) foo_ts 6 0"
    "resolved_at ?refusing (bar_request (Some (LineNumber 7))) foo_ts 6 0"
    by code_simp+
  have opened: "openDocument ?client uri foo_ts = None" for uri
    by (simp add: answering_client_def)
  have refused: "openDocument refusing_client uri foo_ts = Some ''Connection is closed''" for uri
    by (simp add: refusing_client_def)
  have null: "client_getHover ?client uri pos = Inr None" for uri pos
    by (simp add: answering_client_def)
  have line11: "parseLineNumber ?deps (split_lines foo_ts) (LineNumber 11)
                  = NotFound ''LineOutOfRange''"
    by code_simp
  have line1: "parseLineNumber ?deps (split_lines foo_ts) (LineNumber 1) = Found 0"
    by code_simp
  have sym: "findSymbolInLine ?deps (js_nth (split_lines foo_ts) 0) (target (bar_request l))
               = NotFound ''SymbolNotFoundOnLine''" for l
    unfolding bar_request_def by code_simp
  have qux: "findTargetInFile ?deps (split_lines foo_ts)
               (target ((bar_request None)\<lparr>target := ''qux''\<rparr>))
             = NotFound ''TargetNotFoundInFile''"
    unfolding bar_request_def by code_simp
  have line_of: "reqLine (bar_request l) = l" for l
    by (simp add: bar_request_def)
  have line_qux: "reqLine ((bar_request None)\<lparr>target := ''qux''\<rparr>) = None"
    by (simp add: bar_request_def)
  note c3 = C3_null_hover_is_success
  note c3_none = c3 [where path = "posix ''/''" and read = disk_with_foo
      and request = "bar_request None" and l = 4 and c = 4 and deps = ?deps and client = ?client
      and fileText = foo_ts and r = "\<lparr>message = [], hover = None\<rparr>" and e = "[]"
      and ls = "LineNumber 1" and targetLine = 0]
  from c3_none [THEN conjunct2, THEN conjunct1, THEN mp, OF client, THEN mp, OF read,
      THEN mp, OF resolved(1), THEN mp, OF opened, THEN mp, OF null] digits
  have a: "getHover (posix ''/'') ?deps (bar_request None) =
     (Inr \<lparr>message = ''No hover information available for '' @ dquote @ ''bar'' @ dquote
                @ '' at foo.ts:5:5'',
           hover = None\<rparr>,
      [OpenDocument ''file:///w/foo.ts'' foo_ts, SettleDelay 1000,
       GetHover ''file:///w/foo.ts'' \<lparr>line = 4, character = 4\<rparr>])"
    by (simp add: bar_request_def p)
  note c3_seven = c3 [where path = "posix ''/''" and read = disk_with_foo
      and request = "bar_request (Some (LineNumber 7))" and l = 6 and c = 0 and deps = ?deps
      and client = ?client and fileText = foo_ts and r = "\<lparr>message = [], hover = None\<rparr>"
      and e = "[]" and ls = "LineNumber 7" and targetLine = 0]
  from c3_seven [THEN conjunct2, THEN conjunct1, THEN mp, OF client, THEN mp, OF read,
      THEN mp, OF resolved(2), THEN mp, OF opened, THEN mp, OF null] digits
  have a': "getHover (posix ''/'') ?deps (bar_request (Some (LineNumber 7))) =
     (Inr \<lparr>message = ''No hover information available for '' @ dquote @ ''bar'' @ dquote
                @ '' at foo.ts:7:1'',
           hover = None\<rparr>,
      [OpenDocument ''file:///w/foo.ts'' foo_ts, SettleDelay 1000,
       GetHover ''file:///w/foo.ts'' \<lparr>line = 6, character = 0\<rparr>])"
    by (simp add: bar_request_def p)
  note tail = conjunct2 [THEN conjunct2, THEN conjunct2]
  from c3 [where path = "posix ''/''" and read = disk_with_foo and request = "bar_request None"
      and l = 0 and c = 0 and deps = "hover_deps (Inl ''No active LSP client'') disk_with_foo"
      and client = ?client and fileText = foo_ts and r = "\<lparr>message = [], hover = None\<rparr>"
      and e = "''No active LSP client''" and ls = "LineNumber 1" and targetLine = 0,
      THEN tail, THEN conjunct1, THEN mp, OF no_client]
  have b: "getHover (posix ''/'') (hover_deps (Inl ''No active LSP client'') disk_with_foo)
         (bar_request None) = (Inl ''No active LSP client'', [])" .
  from c3 [where path = "posix ''/''" and read = disk_with_foo and request = "bar_request None"
      and l = 0 and c = 0 and deps = "hover_deps (Inr ?client) empty_disk"
      and client = ?client and fileText = foo_ts and r = "\<lparr>message = [], hover = None\<rparr>"
      and e = "''ENOENT: /w/foo.ts''" and ls = "LineNumber 1" and targetLine = 0,
      THEN tail, THEN conjunct2, THEN conjunct1, THEN mp, OF client', THEN mp, OF unread]
  have c: "getHover (posix ''/'') (hover_deps (Inr ?client) empty_disk) (bar_request None)
             = (Inl ''ENOENT: /w/foo.ts'', [])" .
  from c3 [where path = "posix ''/''" and read = disk_with_foo
      and request = "bar_request (Some (LineNumber 11))"
      and l = 0 and c = 0 and deps = ?deps
      and client = ?client and fileText = foo_ts and r = "\<lparr>message = [], hover = None\<rparr>"
      and e = "''LineOutOfRange''" and ls = "LineNumber 11" and targetLine = 0,
      THEN tail, THEN conjunct2, THEN conjunct2, THEN mp, OF client, THEN mp, OF read,
      THEN conjunct1, THEN mp, OF line_of, THEN mp, OF line11]
  have d: "getHover (posix ''/'') ?deps (bar_request (Some (LineNumber 11)))
             = (Inl ''LineOutOfRange in foo.ts'', [])"
    by (simp add: bar_request_def)
  from c3 [where path = "posix ''/''" and read = disk_with_foo
      and request = "bar_request (Some (LineNumber 1))"
      and l = 0 and c = 0 and deps = ?deps
      and client = ?client and fileText = foo_ts and r = "\<lparr>message = [], hover = None\<rparr>"
      and e = "''SymbolNotFoundOnLine''" and ls = "LineNumber 1" and targetLine = 0,
      THEN tail, THEN conjunct2, THEN conjunct2, THEN mp, OF client, THEN mp, OF read,
      THEN conjunct2, THEN conjunct1, THEN mp, OF line_of, THEN mp, OF line1, THEN mp, OF sym]
    digits
  have e: "getHover (posix ''/'') ?deps (bar_request (Some (LineNumber 1)))
             = (Inl ''SymbolNotFoundOnLine on line 1'', [])"
    by simp
  from c3 [where path = "posix ''/''" and read = disk_with_foo
      and request = "(bar_request None)\<lparr>target := ''qux''\<rparr>"
      and l = 0 and c = 0 and deps = ?deps
      and client = ?client and fileText = foo_ts and r = "\<lparr>message = [], hover = None\<rparr>"
      and e = "''TargetNotFoundInFile''" and ls = "LineNumber 1" and targetLine = 0,
      THEN tail, THEN conjunct2, THEN conjunct2, THEN mp, OF client, THEN mp, OF read_qux,
      THEN conjunct2, THEN conjunct2, THEN conjunct1, THEN mp, OF line_qux, THEN mp, OF qux]
  have f: "getHover (posix ''/'') ?deps ((bar_request None)\<lparr>target := ''qux''\<rparr>)
             = (Inl ''TargetNotFoundInFile in foo.ts'', [])"
    by (simp add: bar_request_def)
  from c3 [where path = "posix ''/''" and read = disk_with_foo
      and request = "bar_request (Some (LineNumber 7))"
      and l = 6 and c = 0 and deps = ?refusing
      and client = refusing_client and fileText = foo_ts
      and r = "\<lparr>message = [], hover = None\<rparr>"
      and e = "''Connection is closed''" and ls = "LineNumber 7" and targetLine = 0,
      THEN tail, THEN conjunct2, THEN conjunct2, THEN mp, OF client'', THEN mp, OF read,
      THEN conjunct2, THEN conjunct2, THEN conjunct2, THEN conjunct2, THEN conjunct1,
      THEN mp, OF resolved(3), THEN mp, OF refused]
  have g: "fst (getHover (posix ''/'') ?refusing (bar_request (Some (LineNumber 7))))
             = Inl ''Connection is closed''" .
  show ?thesis by (intro conjI) (rule a a' b c d e f g)+
qed

section \<open>The reported range\<close>

text \<open>
  C4. For a non-null hover result: if the server supplies a range, the reported range is
  that range with 1 added to each of the four coordinates; if it supplies none, the file
  is read again and the reported range starts at line 1, character 1 and ends at the
  number of lines of the text split on newline and the length of the last line. (Should
  that second read throw, the exception is all the formatter produces.)
\<close>

theorem C4_hover_range:
  "(lsp_range res = Some r \<longrightarrow>
      formatHoverResult path read (Some res) request l c =
        Inr \<lparr>message = ''Hover information for '' @ location_text request l c,
             hover = Some \<lparr>hover_contents = formatHoverContents (contents res),
               hover_range = Some
                 \<lparr>range_start = \<lparr>line = line (range_start r) + 1,
                                  character = character (range_start r) + 1\<rparr>,
                  range_end = \<lparr>line = line (range_end r) + 1,
                                character = character (range_end r) + 1\<rparr>\<rparr>\<rparr>\<rparr>)
   \<and> (lsp_range res = None \<longrightarrow>
        read (path_resolve path (root request) (filePath request)) = Inr fileText \<longrightarrow>
        formatHoverResult path read (Some res) request l c =
          Inr \<lparr>message = ''Hover information for '' @ location_text request l c,
               hover = Some \<lparr>hover_contents = formatHoverContents (contents res),
                 hover_range = Some
                   \<lparr>range_start = \<lparr>line = 1, character = 1\<rparr>,
                    range_end = \<lparr>line = length (split_lines fileText),
                                  character = length (last (split_lines fileText))\<rparr>\<rparr>\<rparr>\<rparr>)
   \<and> (lsp_range res = None \<longrightarrow>
        read (path_resolve path (root request) (filePath request)) = Inl e \<longrightarrow>
        formatHoverResult path read (Some res) request l c = Inl e)"
proof (intro conjI impI)
  assume "lsp_range res = Some r"
  then show "formatHoverResult path read (Some res) request l c =
        Inr \<lparr>message = ''Hover information for '' @ location_text request l c,
             hover = Some \<lparr>hover_contents = formatHoverContents (contents res),
               hover_range = Some
                 \<lparr>range_start = \<lparr>line = line (range_start r) + 1,
                                  character = character (range_start r) + 1\<rparr>,
                  range_end = \<lparr>line = line (range_end r) + 1,
                                character = character (range_end r) + 1\<rparr>\<rparr>\<rparr>\<rparr>"
    by (rule formatHoverResult_range)
next
  assume "lsp_range res = None"
    and "read (path_resolve path (root request) (filePath request)) = Inr fileText"
  then show "formatHoverResult path read (Some res) request l c =
          Inr \<lparr>message = ''Hover information for '' @ location_text request l c,
               hover = Some \<lparr>hover_contents = formatHoverContents (contents res),
                 hover_range = Some
                   \<lparr>range_start = \<lparr>line = 1, character = 1\<rparr>,
                    range_end = \<lparr>line = length (split_lines fileText),
                                  character = length (last (split_lines fileText))\<rparr>\<rparr>\<rparr>\<rparr>"
    by (rule formatHoverResult_whole_file)
next
  assume "lsp_range res = None"
    and "read (path_resolve path (root request) (filePath request)) = Inl e"
  then show "formatHoverResult path read (Some res) request l c = Inl e"
    by (rule formatHoverResult_unreadable)
qed


theorem C4_hover_range_witness:
  "formatHoverResult (posix ''/'') disk_with_foo
     (Some \<lparr>contents = Single (Plain ''let bar: number''),
            lsp_range = Some \<lparr>range_start = \<lparr>line = 4, character = 4\<rparr>,
                              range_end = \<lparr>line = 4, character = 7\<rparr>\<rparr>\<rparr>)
     (bar_request None) 4 4 =
     Inr \<lparr>message = ''Hover information for '' @ dquote @ ''bar'' @ dquote @ '' at foo.ts:5:5'',
          hover = Some \<lparr>hover_contents = ''let bar: number'',
            hover_range = Some \<lparr>range_start = \<lparr>line = 5, character = 5\<rparr>,
                                range_end = \<lparr>line = 5, character = 8\<rparr>\<rparr>\<rparr>\<rparr>
   \<and> formatHoverResult (posix ''/'') disk_with_foo
       (Some \<lparr>contents = Single (Plain ''let bar: number''), lsp_range = None\<rparr>)
       (bar_request None) 4 4 =
     Inr \<lparr>message = ''Hover information for '' @ dquote @ ''bar'' @ dquote @ '' at foo.ts:5:5'',
          hover = Some \<lparr>hover_contents = ''let bar: number'',
            hover_range = Some \<lparr>range_start = \<lparr>line = 1, character = 1\<rparr>,
                                range_end = \<lparr>line = 10, character = 1\<rparr>\<rparr>\<rparr>\<rparr>
   \<and> formatHoverResult (posix ''/'') empty_disk
       (Some \<lparr>contents = Single (Plain ''let bar: number''), lsp_range = None\<rparr>)
       (bar_request None) 4 4 = Inl ''ENOENT: /w/foo.ts''"
proof -
  let ?ranged = "\<lparr>contents = Single (Plain ''let bar: number''),
                  lsp_range = Some \<lparr>range_start = \<lparr>line = 4, character = 4\<rparr>,
                                    range_end = \<lparr>line = 4, character = 7\<rparr>\<rparr>\<rparr>"
  let ?bare = "\<lparr>contents = Single (Plain ''let bar: number''), lsp_range = None\<rparr>"
  have p: "path_resolve (posix ''/'') (root (bar_request None)) (filePath (bar_request None))
             = ''/w/foo.ts''"
    unfolding bar_request_def by code_simp
  have loc: "location_text (bar_request None) 4 4 = dquote @ ''bar'' @ dquote @ '' at foo.ts:5:5''"
    unfolding bar_request_def by code_simp
  have lines: "length (split_lines foo_ts) = 10" "length (last (split_lines foo_ts)) = 1"
    by code_simp+
  have read: "disk_with_foo (path_resolve (posix ''/'') (root (bar_request None))
                (filePath (bar_request None))) = Inr foo_ts"
    by (simp add: p disk_with_foo_def)
  have unread: "empty_disk (path_resolve (posix ''/'') (root (bar_request None))
                  (filePath (bar_request None))) = Inl ''ENOENT: /w/foo.ts''"
    by (simp add: p empty_disk_def)
  note c4 = C4_hover_range
  from c4 [where res = ?ranged and path = "posix ''/''" and read = disk_with_foo
        and request = "bar_request None" and l = 4 and c = 4
        and r = "\<lparr>range_start = \<lparr>line = 4, character = 4\<rparr>,
                  range_end = \<lparr>line = 4, character = 7\<rparr>\<rparr>"]
  have a: "formatHoverResult (posix ''/'') disk_with_foo (Some ?ranged) (bar_request None) 4 4 =
     Inr \<lparr>message = ''Hover information for '' @ dquote @ ''bar'' @ dquote @ '' at foo.ts:5:5'',
          hover = Some \<lparr>hover_contents = ''let bar: number'',
            hover_range = Some \<lparr>range_start = \<lparr>line = 5, character = 5\<rparr>,
                                range_end = \<lparr>line = 5, character = 8\<rparr>\<rparr>\<rparr>\<rparr>"
    by (simp add: loc)
  from c4 [where res = ?bare and path = "posix ''/''" and read = disk_with_foo
        and request = "bar_request None" and l = 4 and c = 4 and fileText = foo_ts] read
  have b: "formatHoverResult (posix ''/'') disk_with_foo (Some ?bare) (bar_request None) 4 4 =
     Inr \<lparr>message = ''Hover information for '' @ dquote @ ''bar'' @ dquote @ '' at foo.ts:5:5'',
          hover = Some \<lparr>hover_contents = ''let bar: number'',
            hover_range = Some \<lparr>range_start = \<lparr>line = 1, character = 1\<rparr>,
                                range_end = \<lparr>line = 10, character = 1\<rparr>\<rparr>\<rparr>\<rparr>"
    by (simp add: loc lines)
  from c4 [where res = ?bare and path = "posix ''/''" and read = empty_disk
        and request = "bar_request None" and l = 4 and c = 4 and e = "''ENOENT: /w/foo.ts''"]
    unread
  have c: "formatHoverResult (posix ''/'') empty_disk (Some ?bare) (bar_request None) 4 4
             = Inl ''ENOENT: /w/foo.ts''"
    by simp
  from a b c show ?thesis by blast
qed

section \<open>Every changed file gets a block\<close>

text \<open>
  C5. The per-file import analysis always returns a non-empty block. If the file cannot
  be read, or if no match of the import pattern on any of its lines passes the
  heuristic, the block is exactly the one placeholder line \<^verbatim>\<open>Import statements
  updated\<close> (indented by four spaces, as every line of a block is). A read failure is
  not an error of the analysis: the file's block in the report is its relative path and
  the placeholder, and the report as a whole is still produced.
\<close>

theorem C5_every_block_is_nonempty:
  "(\<exists>block. analyzeImportChanges path readFile changedFile oldPath newPath = Inr block \<and> block \<noteq> [])
   \<and> (readFile changedFile = Inl e \<longrightarrow>
        analyzeImportChanges path readFile changedFile oldPath newPath
          = Inr [''    Import statements updated''])
   \<and> (readFile changedFile = Inr content \<longrightarrow>
        (\<forall>ln \<in> set (split_lines content). \<forall>p \<in> set (import_paths ln).
           \<not> refers_to_moved path changedFile newPath p) \<longrightarrow>
        analyzeImportChanges path readFile changedFile oldPath newPath
          = Inr [''    Import statements updated''])
   \<and> (changedFile \<noteq> oldPath \<longrightarrow>
        (\<exists>block. file_block path readFile oldPath newPath root_dir changedFile
                   = Inr ((''  '' @ path_relative path root_dir changedFile @ '':'') # block)
                 \<and> block \<noteq> []))
   \<and> (changedFile \<noteq> oldPath \<longrightarrow> readFile changedFile = Inl e \<longrightarrow>
        file_block path readFile oldPath newPath root_dir changedFile
          = Inr [''  '' @ path_relative path root_dir changedFile @ '':'',
                 ''    Import statements updated''])
   \<and> (\<exists>report. formatMoveFileResult path readFile result oldPath newPath root_dir = Inr report)"
proof (intro conjI impI)
  show "\<exists>block. analyzeImportChanges path readFile changedFile oldPath newPath = Inr block \<and> block \<noteq> []"
    by (rule analyzeImportChanges_ok)
next
  assume "readFile changedFile = Inl e"
  then show "analyzeImportChanges path readFile changedFile oldPath newPath
          = Inr [''    Import statements updated'']"
    by (simp add: analyzeImportChanges_unreadable placeholder_def)
next
  assume "readFile changedFile = Inr content"
    and "\<forall>ln \<in> set (split_lines content). \<forall>p \<in> set (import_paths ln).
           \<not> refers_to_moved path changedFile newPath p"
  then show "analyzeImportChanges path readFile changedFile oldPath newPath
          = Inr [''    Import statements updated'']"
    by (simp only: analyzeImportChanges_no_match placeholder_def)
next
  assume other: "changedFile \<noteq> oldPath"
  from analyzeImportChanges_ok [of path readFile changedFile oldPath newPath]
  obtain block where b: "analyzeImportChanges path readFile changedFile oldPath newPath = Inr block"
    "block \<noteq> []" by blast
  from file_block_other [OF other b(1)] b(2)
  show "\<exists>block. file_block path readFile oldPath newPath root_dir changedFile
                   = Inr ((''  '' @ path_relative path root_dir changedFile @ '':'') # block)
                 \<and> block \<noteq> []"
    by blast
next
  assume other: "changedFile \<noteq> oldPath" and "readFile changedFile = Inl e"
  then have "analyzeImportChanges path readFile changedFile oldPath newPath = Inr [placeholder]"
    by (simp add: analyzeImportChanges_unreadable)
  from file_block_other [OF other this]
  show "file_block path readFile oldPath newPath root_dir changedFile
          = Inr [''  '' @ path_relative path root_dir changedFile @ '':'',
                 ''    Import statements updated'']"
    by (simp add: placeholder_def)
next
  show "\<exists>report. formatMoveFileResult path readFile result oldPath newPath root_dir = Inr report"
    by (rule formatMoveFileResult_ok)
qed

theorem C5_every_block_witness:
  "analyzeImportChanges (posix ''/'') src_disk ''/r/src/gone.ts'' ''/r/src/a.ts''
     ''/r/src/sub/a.ts'' = Inr [''    Import statements updated'']
   \<and> analyzeImportChanges (posix ''/'') src_disk ''/r/src/c.ts'' ''/r/src/a.ts''
       ''/r/src/sub/a.ts'' = Inr [''    Import statements updated'']
   \<and> file_block (posix ''/'') src_disk ''/r/src/a.ts'' ''/r/src/sub/a.ts'' ''/r''
       ''/r/src/gone.ts'' = Inr [''  src/gone.ts:'', ''    Import statements updated'']
   \<and> import_paths e_ts = [''./other'']
   \<and> analyzeImportChanges (posix ''/'') src_disk ''/r/src/e.ts'' ''/r/src/a.ts''
       ''/r/src/sub/a.ts'' = Inr [''    Import statements updated'']"
proof -
  have read_e: "src_disk ''/r/src/e.ts'' = Inr e_ts"
    by (simp add: src_disk_def)
  have paths_e: "import_paths e_ts = [''./other'']"
    by code_simp
  have none_e: "\<forall>ln \<in> set (split_lines e_ts). \<forall>p \<in> set (import_paths ln).
                  \<not> refers_to_moved (posix ''/'') ''/r/src/e.ts'' ''/r/src/sub/a.ts'' p"
    by code_simp
  have unread: "src_disk ''/r/src/gone.ts'' = Inl ''ENOENT: /r/src/gone.ts''"
    by (simp add: src_disk_def)
  have read: "src_disk ''/r/src/c.ts'' = Inr c_ts"
    by (simp add: src_disk_def)
  have lines: "split_lines c_ts = [c_ts]"
    by code_simp
  have none: "import_paths c_ts = []"
    by code_simp
  have rel: "path_relative (posix ''/'') ''/r'' ''/r/src/gone.ts'' = ''src/gone.ts''"
    by code_simp
  note c5 = C5_every_block_is_nonempty [where path = "posix ''/''" and readFile = src_disk
      and oldPath = "''/r/src/a.ts''" and newPath = "''/r/src/sub/a.ts''"
      and root_dir = "''/r''" and result = moved_result]
  from c5 [where changedFile = "''/r/src/gone.ts''" and e = "''ENOENT: /r/src/gone.ts''"
      and content = "[]"] unread rel
  have a: "analyzeImportChanges (posix ''/'') src_disk ''/r/src/gone.ts'' ''/r/src/a.ts''
             ''/r/src/sub/a.ts'' = Inr [''    Import statements updated'']"
    and c: "file_block (posix ''/'') src_disk ''/r/src/a.ts'' ''/r/src/sub/a.ts'' ''/r''
              ''/r/src/gone.ts'' = Inr [''  src/gone.ts:'', ''    Import statements updated'']"
    by simp_all
  from c5 [where changedFile = "''/r/src/c.ts''" and content = c_ts and e = "[]"] read lines none
  have b: "analyzeImportChanges (posix ''/'') src_disk ''/r/src/c.ts'' ''/r/src/a.ts''
             ''/r/src/sub/a.ts'' = Inr [''    Import statements updated'']"
    by simp
  note c5e = C5_every_block_is_nonempty [where path = "posix ''/''" and readFile = src_disk
      and oldPath = "''/r/src/a.ts''" and newPath = "''/r/src/sub/a.ts''"
      and root_dir = "''/r''" and result = moved_result and changedFile = "''/r/src/e.ts''"
      and content = e_ts and e = "[]"]
  from c5e [THEN conjunct2, THEN conjunct2, THEN conjunct1, THEN mp, OF read_e, THEN mp,
      OF none_e]
  have d: "analyzeImportChanges (posix ''/'') src_disk ''/r/src/e.ts'' ''/r/src/a.ts''
             ''/r/src/sub/a.ts'' = Inr [''    Import statements updated'']" .
  show ?thesis by (intro conjI) (rule a b c paths_e d)+
qed

section \<open>The diff fragment of a matching import\<close>




section \<open>The layout of the report\<close>

text \<open>
  C7. For a move result with its message and changed files, the report is the line
  \<^verbatim>\<open><message>. Updated imports in N file(s).\<close> with \<open>N\<close> the number of changed files,
  an empty line, the line \<^verbatim>\<open>Changes:\<close>, and then, each on a line of its own, the lines
  of one block per changed file, in order: for an entry equal to the old path the block
  is the one line \<^verbatim>\<open>File moved: <old relative path> -> <new relative path>\<close> (with
  the arrow U+2192, indented by two spaces); for every other entry it is the entry's path
  relative to the root (indented by two spaces, followed by a colon) and then the lines
  of its import analysis.
\<close>

theorem C7_report_layout:
  "\<exists>blocks.
     formatMoveFileResult path readFile result oldPath newPath root_dir =
       Inr ((move_message result @ ''. Updated imports in ''
               @ js_String (length (changedFiles result)) @ '' file(s).'')
            @ newline @ newline @ ''Changes:''
            @ concat (map (\<lambda>l. newline @ l) (concat blocks)))
     \<and> length blocks = length (changedFiles result)
     \<and> (\<forall>k<length (changedFiles result).
           (changedFiles result ! k = oldPath \<longrightarrow>
              blocks ! k = [''  File moved: '' @ path_relative path root_dir oldPath @ '' ''
                              @ arrow @ '' '' @ path_relative path root_dir newPath])
           \<and> (changedFiles result ! k \<noteq> oldPath \<longrightarrow>
                (\<exists>fragment.
                   analyzeImportChanges path readFile (changedFiles result ! k) oldPath newPath
                     = Inr fragment
                   \<and> blocks ! k =
                       (''  '' @ path_relative path root_dir (changedFiles result ! k) @ '':'')
                       # fragment)))"
proof -
  from formatMoveFileResult_blocks [of path readFile result oldPath newPath root_dir]
  obtain bs where r: "formatMoveFileResult path readFile result oldPath newPath root_dir =
          Inr (js_join newline
                 ([move_message result @ ''. Updated imports in ''
                     @ js_String (length (changedFiles result)) @ '' file(s).'',
                   [], ''Changes:''] @ concat bs))"
    and len: "length bs = length (changedFiles result)"
    and each: "\<forall>k<length (changedFiles result).
              file_block path readFile oldPath newPath root_dir (changedFiles result ! k)
                = Inr (bs ! k)"
    by blast
  have shape: "js_join newline
                 ([move_message result @ ''. Updated imports in ''
                     @ js_String (length (changedFiles result)) @ '' file(s).'',
                   [], ''Changes:''] @ concat bs) =
       (move_message result @ ''. Updated imports in ''
               @ js_String (length (changedFiles result)) @ '' file(s).'')
            @ newline @ newline @ ''Changes:''
            @ concat (map (\<lambda>l. newline @ l) (concat bs))"
    by (simp add: js_join_Cons)
  have blocks: "(changedFiles result ! k = oldPath \<longrightarrow>
              bs ! k = [''  File moved: '' @ path_relative path root_dir oldPath @ '' ''
                              @ arrow @ '' '' @ path_relative path root_dir newPath])
           \<and> (changedFiles result ! k \<noteq> oldPath \<longrightarrow>
                (\<exists>fragment.
                   analyzeImportChanges path readFile (changedFiles result ! k) oldPath newPath
                     = Inr fragment
                   \<and> bs ! k =
                       (''  '' @ path_relative path root_dir (changedFiles result ! k) @ '':'')
                       # fragment))"
    if k: "k < length (changedFiles result)" for k
  proof (intro conjI impI)
    assume "changedFiles result ! k = oldPath"
    with each k have "file_block path readFile oldPath newPath root_dir oldPath = Inr (bs ! k)"
      by auto
    then show "bs ! k = [''  File moved: '' @ path_relative path root_dir oldPath @ '' ''
                              @ arrow @ '' '' @ path_relative path root_dir newPath]"
      by (simp add: file_block_moved)
  next
    assume other: "changedFiles result ! k \<noteq> oldPath"
    from analyzeImportChanges_ok [of path readFile "changedFiles result ! k" oldPath newPath]
    obtain fragment where f:
      "analyzeImportChanges path readFile (changedFiles result ! k) oldPath newPath = Inr fragment"
      by blast
    from file_block_other [OF other f, of root_dir] each k
    have "bs ! k = (''  '' @ path_relative path root_dir (changedFiles result ! k) @ '':'')
                   # fragment"
      by auto
    with f show "\<exists>fragment.
                   analyzeImportChanges path readFile (changedFiles result ! k) oldPath newPath
                     = Inr fragment
                   \<and> bs ! k =
                       (''  '' @ path_relative path root_dir (changedFiles result ! k) @ '':'')
                       # fragment"
      by blast
  qed
  from r shape len blocks show ?thesis
    by (intro exI [of _ bs] conjI allI impI) simp_all
qed

theorem C7_report_witness:
  "formatMoveFileResult (posix ''/'') src_disk moved_result ''/r/src/a.ts'' ''/r/src/sub/a.ts''
     ''/r'' =
     Inr (js_join newline
       [''Moved file from /r/src/a.ts to /r/src/sub/a.ts. Updated imports in 2 file(s).'',
        [],
        ''Changes:'',
        ''  File moved: src/a.ts '' @ arrow @ '' src/sub/a.ts'',
        ''  src/b.ts:'',
        ''    @@ -1,1 +1,1 @@'',
        ''    - import {x} from '' @ dquote @ ''./a.ts'' @ dquote @ '';'',
        ''    + import {x} from '' @ dquote @ ''./sub/a'' @ dquote @ '';''])"
proof -
  have result: "formatMoveFileResult (posix ''/'') src_disk moved_result ''/r/src/a.ts''
     ''/r/src/sub/a.ts'' ''/r'' =
     Inr (js_join newline
       [''Moved file from /r/src/a.ts to /r/src/sub/a.ts. Updated imports in 2 file(s).'',
        [],
        ''Changes:'',
        ''  File moved: src/a.ts '' @ arrow @ '' src/sub/a.ts'',
        ''  src/b.ts:'',
        ''    @@ -1,1 +1,1 @@'',
        ''    - import {x} from '' @ dquote @ ''./a.ts'' @ dquote @ '';'',
        ''    + import {x} from '' @ dquote @ ''./sub/a'' @ dquote @ '';''])"
    by code_simp
  from C7_report_layout [of "posix ''/''" src_disk moved_result "''/r/src/a.ts''"
      "''/r/src/sub/a.ts''" "''/r''"]
  show ?thesis by (elim exE conjE) (rule result)
qed


section \<open>The order of the calls to the server\<close>

text \<open>
  C8, as amended. An invocation that has no active client, cannot read the file, or
  whose request does not resolve to a position, returns an error and makes no call at
  all. An invocation whose request resolves to the position (\<open>l\<close>, \<open>c\<close>) first pushes
  the text it read to the server with \<^verbatim>\<open>openDocument\<close>, under the URI of the
  resolved path; if that call throws, the error is returned and nothing else is called;
  otherwise the calls are exactly \<^verbatim>\<open>openDocument\<close>, the delay of 1000 ms, and one
  \<^verbatim>\<open>getHover\<close> at (\<open>l\<close>, \<open>c\<close>), in this order. An invocation that succeeds has
  made exactly these three calls. In every case \<^verbatim>\<open>getHover\<close> is issued at most
  once and never before the document was opened and the delay awaited, and
  \<^verbatim>\<open>openDocument\<close> is never called after it.
\<close>

theorem C8_server_calls_in_order:
  "(getActiveClient deps = Inl e \<longrightarrow> getHover path deps request = (Inl e, []))
   \<and> (getActiveClient deps = Inr client \<longrightarrow>
        readFileSync deps 0 (path_resolve path (root request) (filePath request)) = Inl e \<longrightarrow>
        getHover path deps request = (Inl e, []))
   \<and> (getActiveClient deps = Inr client \<longrightarrow>
        readFileSync deps 0 (path_resolve path (root request) (filePath request)) = Inr fileText \<longrightarrow>
        ((\<forall>l' c'. \<not> resolved_at deps request fileText l' c') \<longrightarrow>
           (\<exists>e'. getHover path deps request = (Inl e', [])))
        \<and> (resolved_at deps request fileText l c \<longrightarrow>
             openDocument client
               (''file://'' @ path_resolve path (root request) (filePath request)) fileText
               = Some e \<longrightarrow>
             getHover path deps request =
               (Inl e,
                [OpenDocument (''file://'' @ path_resolve path (root request)
                                 (filePath request)) fileText]))
        \<and> (resolved_at deps request fileText l c \<longrightarrow>
             openDocument client
               (''file://'' @ path_resolve path (root request) (filePath request)) fileText
               = None \<longrightarrow>
             snd (getHover path deps request) =
               [OpenDocument (''file://'' @ path_resolve path (root request)
                                (filePath request)) fileText,
                SettleDelay 1000,
                GetHover (''file://'' @ path_resolve path (root request) (filePath request))
                  \<lparr>line = l, character = c\<rparr>]))
   \<and> (fst (getHover path deps request) = Inr r \<longrightarrow>
        (\<exists>fileText' pos.
           snd (getHover path deps request) =
             [OpenDocument (''file://'' @ path_resolve path (root request) (filePath request))
                fileText',
              SettleDelay 1000,
              GetHover (''file://'' @ path_resolve path (root request) (filePath request))
                pos]))
   \<and> ((\<exists>e'. getHover path deps request = (Inl e', []))
      \<or> (\<exists>fileText'.
            readFileSync deps 0 (path_resolve path (root request) (filePath request))
              = Inr fileText'
            \<and> ((\<exists>e'. getHover path deps request =
                     (Inl e', [OpenDocument (''file://'' @ path_resolve path (root request)
                                              (filePath request)) fileText']))
               \<or> (\<exists>pos. snd (getHover path deps request) =
                     [OpenDocument (''file://'' @ path_resolve path (root request)
                                      (filePath request)) fileText',
                      SettleDelay 1000,
                      GetHover (''file://'' @ path_resolve path (root request)
                                  (filePath request)) pos]))))"
proof -
  let ?uri = "''file://'' @ path_resolve path (root request) (filePath request)"
  have shape: "(\<exists>e'. getHover path deps request = (Inl e', []))
      \<or> (\<exists>fileText'.
            readFileSync deps 0 (path_resolve path (root request) (filePath request))
              = Inr fileText'
            \<and> ((\<exists>e'. getHover path deps request = (Inl e', [OpenDocument ?uri fileText']))
               \<or> (\<exists>pos. snd (getHover path deps request) =
                     [OpenDocument ?uri fileText', SettleDelay 1000, GetHover ?uri pos])))"
  proof -
    from getHover_cases [of path deps request]
    consider e' where "getHover path deps request = (Inl e', [])"
      | client' fileText' l' c' where
        "readFileSync deps 0 (path_resolve path (root request) (filePath request)) = Inr fileText'"
        "getHover path deps request =
           open_and_hover path deps client' request ?uri fileText' l' c'"
      by blast
    then show ?thesis
    proof cases
      case 1
      then show ?thesis by blast
    next
      case 2
      from open_and_hover_cases [of client' ?uri fileText' path deps request l' c'] 2
      show ?thesis by (elim disjE exE conjE) (rule disjI2, rule exI [of _ fileText'], simp)+
    qed
  qed
  have success: "\<exists>fileText' pos. snd (getHover path deps request) =
                   [OpenDocument ?uri fileText', SettleDelay 1000, GetHover ?uri pos]"
    if "fst (getHover path deps request) = Inr r"
    using shape that by (elim disjE exE conjE) (simp, simp, blast)
  show ?thesis
  proof (intro conjI impI)
    assume "getActiveClient deps = Inl e"
    then show "getHover path deps request = (Inl e, [])"
      by (rule getHover_no_client)
  next
    assume "getActiveClient deps = Inr client"
      and "readFileSync deps 0 (path_resolve path (root request) (filePath request)) = Inl e"
    then show "getHover path deps request = (Inl e, [])"
      by (rule getHover_unreadable)
  next
    assume "getActiveClient deps = Inr client"
      and "readFileSync deps 0 (path_resolve path (root request) (filePath request))
             = Inr fileText"
      and "\<forall>l' c'. \<not> resolved_at deps request fileText l' c'"
    then show "\<exists>e'. getHover path deps request = (Inl e', [])"
      by (rule getHover_unresolved)
  next
    assume a: "getActiveClient deps = Inr client"
      "readFileSync deps 0 (path_resolve path (root request) (filePath request)) = Inr fileText"
      "resolved_at deps request fileText l c"
      "openDocument client ?uri fileText = Some e"
    show "getHover path deps request = (Inl e, [OpenDocument ?uri fileText])"
      unfolding getHover_resolved [OF a(1) a(2) a(3)]
      by (rule open_and_hover_refused [OF a(4)])
  next
    assume a: "getActiveClient deps = Inr client"
      "readFileSync deps 0 (path_resolve path (root request) (filePath request)) = Inr fileText"
      "resolved_at deps request fileText l c"
      "openDocument client ?uri fileText = None"
    show "snd (getHover path deps request) =
            [OpenDocument ?uri fileText, SettleDelay 1000,
             GetHover ?uri \<lparr>line = l, character = c\<rparr>]"
      unfolding getHover_resolved [OF a(1) a(2) a(3)]
      by (rule open_and_hover_trace [OF a(4)])
  next
    assume "fst (getHover path deps request) = Inr r"
    then show "\<exists>fileText' pos. snd (getHover path deps request) =
                   [OpenDocument ?uri fileText', SettleDelay 1000, GetHover ?uri pos]"
      by (rule success)
  next
    show "(\<exists>e'. getHover path deps request = (Inl e', []))
      \<or> (\<exists>fileText'.
            readFileSync deps 0 (path_resolve path (root request) (filePath request))
              = Inr fileText'
            \<and> ((\<exists>e'. getHover path deps request = (Inl e', [OpenDocument ?uri fileText']))
               \<or> (\<exists>pos. snd (getHover path deps request) =
                     [OpenDocument ?uri fileText', SettleDelay 1000, GetHover ?uri pos])))"
      by (rule shape)
  qed
qed

theorem C8_server_calls_witness:
  "getHover (posix ''/'') (hover_deps (Inl ''No active LSP client'') disk_with_foo)
     (bar_request None) = (Inl ''No active LSP client'', [])
   \<and> getHover (posix ''/'') (hover_deps (Inr (answering_client None)) empty_disk)
       (bar_request None) = (Inl ''ENOENT: /w/foo.ts'', [])
   \<and> snd (getHover (posix ''/'') (hover_deps (Inr (answering_client None)) disk_with_foo)
            (bar_request (Some (LineNumber 11)))) = []
   \<and> getHover (posix ''/'') (hover_deps (Inr refusing_client) disk_with_foo)
       (bar_request (Some (LineNumber 7))) =
       (Inl ''Connection is closed'', [OpenDocument ''file:///w/foo.ts'' foo_ts])
   \<and> snd (getHover (posix ''/'') (hover_deps (Inr (answering_client None)) disk_with_foo)
            (bar_request (Some (LineNumber 7)))) =
       [OpenDocument ''file:///w/foo.ts'' foo_ts, SettleDelay 1000,
        GetHover ''file:///w/foo.ts'' \<lparr>line = 6, character = 0\<rparr>]
   \<and> snd (getHover (posix ''/'') (hover_deps (Inr (answering_client None)) disk_with_foo)
            (bar_request None)) =
       [OpenDocument ''file:///w/foo.ts'' foo_ts, SettleDelay 1000,
        GetHover ''file:///w/foo.ts'' \<lparr>line = 4, character = 4\<rparr>]"
proof -
  let ?client = "answering_client None"
  let ?deps = "hover_deps (Inr ?client) disk_with_foo"
  let ?refusing = "hover_deps (Inr refusing_client) disk_with_foo"
  have p: "path_resolve (posix ''/'') ''/w'' ''foo.ts'' = ''/w/foo.ts''"
    by code_simp
  have client: "getActiveClient ?deps = Inr ?client"
    and no_client: "getActiveClient (hover_deps (Inl ''No active LSP client'') disk_with_foo)
                      = Inl ''No active LSP client''"
    and client': "getActiveClient (hover_deps (Inr ?client) empty_disk) = Inr ?client"
    and client'': "getActiveClient ?refusing = Inr refusing_client"
    by (simp_all add: hover_deps_def)
  have read: "readFileSync (hover_deps cl disk_with_foo) 0
                (path_resolve (posix ''/'') (root (bar_request l)) (filePath (bar_request l)))
              = Inr foo_ts" for l cl
    by (simp add: p bar_request_def hover_deps_def disk_with_foo_def)
  have unread: "readFileSync (hover_deps (Inr ?client) empty_disk) 0
                  (path_resolve (posix ''/'') (root (bar_request None))
                     (filePath (bar_request None))) = Inl ''ENOENT: /w/foo.ts''"
    by (simp add: p bar_request_def hover_deps_def empty_disk_def)
  have resolved: "resolved_at ?deps (bar_request None) foo_ts 4 4"
    "resolved_at ?deps (bar_request (Some (LineNumber 7))) foo_ts 6 0"
    "resolved_at ?refusing (bar_request (Some (LineNumber 7))) foo_ts 6 0"
    by code_simp+
  have line11: "parseLineNumber ?deps (split_lines foo_ts) (LineNumber 11)
                  = NotFound ''LineOutOfRange''"
    by code_simp
  have unresolved: "\<forall>l' c'. \<not> resolved_at ?deps (bar_request (Some (LineNumber 11))) foo_ts l' c'"
    by (simp add: resolved_at_def bar_request_def line11)
  have opened: "openDocument ?client uri foo_ts = None" for uri
    by (simp add: answering_client_def)
  have refused: "openDocument refusing_client uri foo_ts = Some ''Connection is closed''" for uri
    by (simp add: refusing_client_def)
  note c8 = C8_server_calls_in_order
  note tail = conjunct2 [THEN conjunct2]
  from c8 [where path = "posix ''/''" and request = "bar_request None"
      and deps = "hover_deps (Inl ''No active LSP client'') disk_with_foo" and client = ?client
      and fileText = foo_ts and l = 0 and c = 0 and e = "''No active LSP client''"
      and r = "\<lparr>message = [], hover = None\<rparr>", THEN conjunct1, THEN mp, OF no_client]
  have a: "getHover (posix ''/'') (hover_deps (Inl ''No active LSP client'') disk_with_foo)
     (bar_request None) = (Inl ''No active LSP client'', [])" .
  from c8 [where path = "posix ''/''" and request = "bar_request None"
      and deps = "hover_deps (Inr ?client) empty_disk" and client = ?client
      and fileText = foo_ts and l = 0 and c = 0 and e = "''ENOENT: /w/foo.ts''"
      and r = "\<lparr>message = [], hover = None\<rparr>", THEN conjunct2, THEN conjunct1,
      THEN mp, OF client', THEN mp, OF unread]
  have b: "getHover (posix ''/'') (hover_deps (Inr ?client) empty_disk) (bar_request None)
             = (Inl ''ENOENT: /w/foo.ts'', [])" .
  from c8 [where path = "posix ''/''" and request = "bar_request (Some (LineNumber 11))"
      and deps = ?deps and client = ?client
      and fileText = foo_ts and l = 0 and c = 0 and e = "[]"
      and r = "\<lparr>message = [], hover = None\<rparr>", THEN tail, THEN conjunct1,
      THEN mp, OF client, THEN mp, OF read, THEN conjunct1, THEN mp, OF unresolved]
  obtain e' where "getHover (posix ''/'') ?deps (bar_request (Some (LineNumber 11))) = (Inl e', [])"
    by (elim exE)
  then have c: "snd (getHover (posix ''/'') ?deps (bar_request (Some (LineNumber 11)))) = []"
    by (simp only: snd_conv)
  from c8 [where path = "posix ''/''" and request = "bar_request (Some (LineNumber 7))"
      and deps = ?refusing and client = refusing_client
      and fileText = foo_ts and l = 6 and c = 0 and e = "''Connection is closed''"
      and r = "\<lparr>message = [], hover = None\<rparr>", THEN tail, THEN conjunct1,
      THEN mp, OF client'', THEN mp, OF read, THEN conjunct2, THEN conjunct1,
      THEN mp, OF resolved(3), THEN mp, OF refused]
  have d: "getHover (posix ''/'') ?refusing (bar_request (Some (LineNumber 7))) =
       (Inl ''Connection is closed'', [OpenDocument ''file:///w/foo.ts'' foo_ts])"
    by (simp add: bar_request_def p)
  from c8 [where path = "posix ''/''" and request = "bar_request (Some (LineNumber 7))"
      and deps = ?deps and client = ?client
      and fileText = foo_ts and l = 6 and c = 0 and e = "[]"
      and r = "\<lparr>message = [], hover = None\<rparr>", THEN tail, THEN conjunct1,
      THEN mp, OF client, THEN mp, OF read, THEN conjunct2, THEN conjunct2,
      THEN mp, OF resolved(2), THEN mp, OF opened]
  have e: "snd (getHover (posix ''/'') ?deps (bar_request (Some (LineNumber 7)))) =
       [OpenDocument ''file:///w/foo.ts'' foo_ts, SettleDelay 1000,
        GetHover ''file:///w/foo.ts'' \<lparr>line = 6, character = 0\<rparr>]"
    by (simp add: bar_request_def p)
  from c8 [where path = "posix ''/''" and request = "bar_request None"
      and deps = ?deps and client = ?client
      and fileText = foo_ts and l = 4 and c = 4 and e = "[]"
      and r = "\<lparr>message = [], hover = None\<rparr>", THEN tail, THEN conjunct1,
      THEN mp, OF client, THEN mp, OF read, THEN conjunct2, THEN conjunct2,
      THEN mp, OF resolved(1), THEN mp, OF opened]
  have f: "snd (getHover (posix ''/'') ?deps (bar_request None)) =
       [OpenDocument ''file:///w/foo.ts'' foo_ts, SettleDelay 1000,
        GetHover ''file:///w/foo.ts'' \<lparr>line = 4, character = 4\<rparr>]"
    by (simp add: bar_request_def p)
  show ?thesis by (intro conjI) (rule a b c d e f)+
qed

text \<open>
  As the claim is stated (``in every hover invocation [...] exactly one getHover call is
  made per caller request'') it fails for a request whose file cannot be read: the
  invocation returns the error and makes no call at all.
\<close>

theorem C8_no_call_counterexample:
  "getHover (posix ''/'') (hover_deps (Inr (answering_client None)) empty_disk) (bar_request None)
     = (Inl ''ENOENT: /w/foo.ts'', [])"
  by code_simp

section \<open>Whole tokens are preferred\<close>

text \<open>
  C9 (against the resolver as the specification describes it). If the target occurs on
  the line as a whole token, at an index \<open>i\<close>, symbol resolution succeeds with the index
  of a whole-token occurrence (the first one, so at most \<open>i\<close>), never with an occurrence
  embedded in a longer token. It fails if and only if the target does not occur on the
  line at all, and an index it returns is always an occurrence of the target.
\<close>

theorem C9_whole_token_preferred:
  "(whole_token_at lineText t i \<longrightarrow> i \<le> length lineText \<longrightarrow>
      (\<exists>j. findSymbolInLine_spec lineText t = Inr j \<and> whole_token_at lineText t j \<and> j \<le> i))
   \<and> ((\<exists>e. findSymbolInLine_spec lineText t = Inl e) \<longleftrightarrow> (\<forall>k. \<not> occurs_at lineText t k))
   \<and> (findSymbolInLine_spec lineText t = Inr j' \<longrightarrow> occurs_at lineText t j')"
proof (intro conjI impI)
  assume "whole_token_at lineText t i" and "i \<le> length lineText"
  then show "\<exists>j. findSymbolInLine_spec lineText t = Inr j \<and> whole_token_at lineText t j \<and> j \<le> i"
    using find_upt_first [of "whole_token_at lineText t" i "Suc (length lineText)"]
    by (auto simp: findSymbolInLine_spec_def)
next
  show "(\<exists>e. findSymbolInLine_spec lineText t = Inl e) \<longleftrightarrow> (\<forall>k. \<not> occurs_at lineText t k)"
  proof
    assume "\<exists>e. findSymbolInLine_spec lineText t = Inl e"
    then have "indexOf lineText t = None"
      by (auto simp: findSymbolInLine_spec_def split: option.splits)
    then show "\<forall>k. \<not> occurs_at lineText t k" by (simp add: indexOf_None)
  next
    assume a: "\<forall>k. \<not> occurs_at lineText t k"
    then have "indexOf lineText t = None" by (simp add: indexOf_None)
    moreover have "find (whole_token_at lineText t) [0..<Suc (length lineText)] = None"
      using a by (auto simp: find_None_iff whole_token_at_def)
    ultimately show "\<exists>e. findSymbolInLine_spec lineText t = Inl e"
      by (simp add: findSymbolInLine_spec_def)
  qed
next
  assume r: "findSymbolInLine_spec lineText t = Inr j'"
  show "occurs_at lineText t j'"
  proof (cases "find (whole_token_at lineText t) [0..<Suc (length lineText)]")
    case None
    with r have "indexOf lineText t = Some j'"
      by (auto simp: findSymbolInLine_spec_def split: option.splits)
    from indexOf_Some [OF this] show ?thesis by simp
  next
    case (Some a)
    with r have "a = j'" by (simp add: findSymbolInLine_spec_def)
    with Some show ?thesis by (auto simp: find_Some_iff whole_token_at_def)
  qed
qed

theorem C9_whole_token_witness:
  "whole_token_at ''const foobar = foo + 1'' ''foo'' 15
   \<and> occurs_at ''const foobar = foo + 1'' ''foo'' 6
   \<and> \<not> whole_token_at ''const foobar = foo + 1'' ''foo'' 6
   \<and> findSymbolInLine_spec ''const foobar = foo + 1'' ''foo'' = Inr 15
   \<and> findSymbolInLine_spec ''const foobar = 1'' ''foo'' = Inr 6
   \<and> findSymbolInLine_spec ''const foobar = 1'' ''baz'' = Inl ''SymbolNotFoundOnLine''"
proof -
  have w: "whole_token_at ''const foobar = foo + 1'' ''foo'' 15"
    and o: "occurs_at ''const foobar = foo + 1'' ''foo'' 6"
    and n: "\<not> whole_token_at ''const foobar = foo + 1'' ''foo'' 6"
    by code_simp+
  have a: "findSymbolInLine_spec ''const foobar = foo + 1'' ''foo'' = Inr 15"
    and b: "findSymbolInLine_spec ''const foobar = 1'' ''foo'' = Inr 6"
    and c: "findSymbolInLine_spec ''const foobar = 1'' ''baz'' = Inl ''SymbolNotFoundOnLine''"
    by code_simp+
  from C9_whole_token_preferred [of "''const foobar = foo + 1''" "''foo''" 15] w o n a b c
  show ?thesis by blast
qed


section \<open>The report cannot fail\<close>

text \<open>
  C10. \<^verbatim>\<open>formatMoveFileResult\<close> returns a success value for every input:
  \<^verbatim>\<open>analyzeImportChanges\<close> returns \<^verbatim>\<open>ok\<close> on every path, so does the callback
  that builds a file's block, and the loop over the blocks never meets an error. A match
  contributes a diff fragment only when the reconstructed old line differs from the
  current line; when the substitution leaves the line unchanged it contributes nothing.
\<close>

theorem C10_report_never_fails:
  "(\<exists>report. formatMoveFileResult path readFile result oldPath newPath root_dir = Inr report)
   \<and> (\<exists>block. analyzeImportChanges path readFile changedFile oldPath newPath = Inr block)
   \<and> (\<exists>block. file_block path readFile oldPath newPath root_dir changedFile = Inr block)
   \<and> collect_blocks start (map (file_block path readFile oldPath newPath root_dir) files)
       \<noteq> Inl e
   \<and> (reconstructed_old_line path changedFile oldPath ln p = ln \<longrightarrow>
        match_change path changedFile oldPath newPath n ln p = [])
   \<and> (match_change path changedFile oldPath newPath n ln p \<noteq> [] \<longrightarrow>
        refers_to_moved path changedFile newPath p
        \<and> reconstructed_old_line path changedFile oldPath ln p \<noteq> ln
        \<and> match_change path changedFile oldPath newPath n ln p =
            [''    @@ -'' @ js_String n @ '',1 +'' @ js_String n @ '',1 @@'',
             ''    - '' @ reconstructed_old_line path changedFile oldPath ln p,
             ''    + '' @ ln])"
proof (intro conjI impI)
  show "\<exists>report. formatMoveFileResult path readFile result oldPath newPath root_dir = Inr report"
    by (rule formatMoveFileResult_ok)
next
  show "\<exists>block. analyzeImportChanges path readFile changedFile oldPath newPath = Inr block"
    using analyzeImportChanges_ok [of path readFile changedFile oldPath newPath] by blast
next
  show "\<exists>block. file_block path readFile oldPath newPath root_dir changedFile = Inr block"
    by (rule file_block_ok)
next
  from file_blocks_all_ok [of path readFile oldPath newPath root_dir files]
  obtain bs where "map (file_block path readFile oldPath newPath root_dir) files = map Inr bs"
    by blast
  then show "collect_blocks start (map (file_block path readFile oldPath newPath root_dir) files)
       \<noteq> Inl e"
    by (simp add: collect_blocks_Inr)
next
  assume "reconstructed_old_line path changedFile oldPath ln p = ln"
  then show "match_change path changedFile oldPath newPath n ln p = []"
    by (simp add: match_change_eq)
next
  assume "match_change path changedFile oldPath newPath n ln p \<noteq> []"
  then show "refers_to_moved path changedFile newPath p"
    by (simp add: match_change_eq split: if_splits)
next
  assume "match_change path changedFile oldPath newPath n ln p \<noteq> []"
  then show "reconstructed_old_line path changedFile oldPath ln p \<noteq> ln"
    by (simp add: match_change_eq split: if_splits)
next
  assume "match_change path changedFile oldPath newPath n ln p \<noteq> []"
  then show "match_change path changedFile oldPath newPath n ln p =
            [''    @@ -'' @ js_String n @ '',1 +'' @ js_String n @ '',1 @@'',
             ''    - '' @ reconstructed_old_line path changedFile oldPath ln p,
             ''    + '' @ ln]"
    by (simp add: match_change_eq diff_fragment_def split: if_splits)
qed

theorem C10_report_witness:
  "reconstructed_old_line (posix ''/'') ''/r/src/d.ts'' ''/r/src/a.ts'' d_ts ''./a.ts'' = d_ts
   \<and> match_change (posix ''/'') ''/r/src/d.ts'' ''/r/src/a.ts'' ''/r/src/sub/a.ts'' 1 d_ts
       ''./a.ts'' = []
   \<and> match_change (posix ''/'') ''/r/src/b.ts'' ''/r/src/a.ts'' ''/r/src/sub/a.ts'' 1 b_ts
       ''./sub/a'' =
       [''    @@ -1,1 +1,1 @@'',
        ''    - import {x} from '' @ dquote @ ''./a.ts'' @ dquote @ '';'',
        ''    + import {x} from '' @ dquote @ ''./sub/a'' @ dquote @ '';'']
   \<and> reconstructed_old_line (posix ''/'') ''/r/src/b.ts'' ''/r/src/a.ts'' b_ts ''./sub/a'' \<noteq> b_ts"
proof -
  have same: "reconstructed_old_line (posix ''/'') ''/r/src/d.ts'' ''/r/src/a.ts'' d_ts ''./a.ts''
                = d_ts"
    by code_simp
  have frag: "match_change (posix ''/'') ''/r/src/b.ts'' ''/r/src/a.ts'' ''/r/src/sub/a.ts'' 1 b_ts
       ''./sub/a'' =
       [''    @@ -1,1 +1,1 @@'',
        ''    - import {x} from '' @ dquote @ ''./a.ts'' @ dquote @ '';'',
        ''    + import {x} from '' @ dquote @ ''./sub/a'' @ dquote @ '';'']"
    by code_simp
  note c10d = C10_report_never_fails [where path = "posix ''/''" and readFile = src_disk
      and oldPath = "''/r/src/a.ts''" and newPath = "''/r/src/sub/a.ts''" and n = 1
      and root_dir = "''/r''" and result = moved_result and files = "[]" and start = "[]"
      and e = "[]" and changedFile = "''/r/src/d.ts''" and ln = d_ts and p = "''./a.ts''"]
  note c10b = C10_report_never_fails [where path = "posix ''/''" and readFile = src_disk
      and oldPath = "''/r/src/a.ts''" and newPath = "''/r/src/sub/a.ts''" and n = 1
      and root_dir = "''/r''" and result = moved_result and files = "[]" and start = "[]"
      and e = "[]" and changedFile = "''/r/src/b.ts''" and ln = b_ts and p = "''./sub/a''"]
  from c10d [THEN conjunct2, THEN conjunct2, THEN conjunct2, THEN conjunct2, THEN conjunct1,
      THEN mp, OF same]
  have a: "match_change (posix ''/'') ''/r/src/d.ts'' ''/r/src/a.ts'' ''/r/src/sub/a.ts'' 1 d_ts
       ''./a.ts'' = []" .
  have ne: "match_change (posix ''/'') ''/r/src/b.ts'' ''/r/src/a.ts'' ''/r/src/sub/a.ts'' 1 b_ts
       ''./sub/a'' \<noteq> []"
    unfolding frag by simp
  from c10b [THEN conjunct2, THEN conjunct2, THEN conjunct2, THEN conjunct2, THEN conjunct2,
      THEN mp, OF ne, THEN conjunct2, THEN conjunct1]
  have b: "reconstructed_old_line (posix ''/'') ''/r/src/b.ts'' ''/r/src/a.ts'' b_ts ''./sub/a''
             \<noteq> b_ts" .
  show ?thesis by (intro conjI) (rule same a frag b)+
qed

end
